theory Spec2Isabelle
  imports
    Complex_Main
    "HOL-Library.Word"
    "HOL-Library.RBT"
    "HOL-Library.List_Lexorder"
    "HOL-Library.Char_ord"
begin

section \<open>The per-feature context of tilemaker: \<^verbatim>\<open>include/osm_object.h\<close>\<close>

text \<open>
  The header declares \<^verbatim>\<open>struct LayerDef\<close> and \<^verbatim>\<open>class OSMObject\<close>. Five
  member functions are defined inline there (\<^verbatim>\<open>setNode\<close>, \<^verbatim>\<open>setWay\<close>,
  \<^verbatim>\<open>setRelation\<close>, \<^verbatim>\<open>reset\<close>, \<^verbatim>\<open>setLocation\<close>); they are embedded
  below line by line. Every other member function is only declared in the header.
\<close>

subsection \<open>Machine types\<close>

text \<open>
  \<^verbatim>\<open>uint\<close> is \<^verbatim>\<open>unsigned int\<close>, \<^verbatim>\<open>int32_t\<close> and \<^verbatim>\<open>uint64_t\<close> are the
  fixed-width types. A signed value is kept as its bit pattern and read with \<open>sint\<close>.
  The \<^verbatim>\<open>double\<close> fields of a layer definition are never computed with here and are
  kept as reals.
\<close>

type_synonym uint = "32 word"
type_synonym int32_t = "32 word"
type_synonym uint64_t = "64 word"

subsection \<open>Types declared in headers outside the sources\<close>

text \<open>
  \<^verbatim>\<open>osm_store.h\<close>, \<^verbatim>\<open>geomtypes.h\<close>, \<^verbatim>\<open>output_object.h\<close> and the generated
  \<^verbatim>\<open>osmformat.pb.h\<close> are included by the header but are not among the sources. Of
  their types only what the inline functions touch is kept:

  \<^item> \<^verbatim>\<open>NodeID\<close> and \<^verbatim>\<open>WayID\<close> are unsigned integer types whose widths are not
    known here. The context record takes them as the type parameters \<open>'nid\<close> and
    \<open>'wid\<close>; the operations instantiate them with \<open>'n word\<close> and \<open>'w word\<close>.
  \<^item> \<^verbatim>\<open>MAX_WAY_ID\<close> is a macro of \<^verbatim>\<open>osm_store.h\<close>: it only appears as the
    initial value of the field \<^verbatim>\<open>newWayID\<close>, so every statement below is about
    the value that field holds, whatever the macro expands to.
  \<^item> \<^verbatim>\<open>LatpLon\<close> has the members \<^verbatim>\<open>latp\<close> and \<^verbatim>\<open>lon\<close>, which
    \<^verbatim>\<open>setNode\<close> passes to the \<^verbatim>\<open>int32_t\<close> parameters of \<^verbatim>\<open>setLocation\<close>.
  \<^item> \<^verbatim>\<open>OSMStore\<close> has a member \<^verbatim>\<open>nodes\<close> with a checked lookup
    \<^verbatim>\<open>at(NodeID)\<close> that throws \<^verbatim>\<open>std::out_of_range\<close> for an unknown id (the
    \<^verbatim>\<open>catch\<close> clause of \<^verbatim>\<open>setWay\<close>). The member \<open>ways\<close>, used by the
    multi-polygon builder only, is modelled from the spec.
  \<^item> Of the protobuf messages \<^verbatim>\<open>Way\<close>, \<^verbatim>\<open>Relation\<close> and \<^verbatim>\<open>DenseNodes\<close>
    the accessed fields are kept: \<^verbatim>\<open>id()\<close> (an \<^verbatim>\<open>int64\<close>, stored into the
    \<^verbatim>\<open>uint64_t\<close> field \<^verbatim>\<open>osmID\<close> with the same bits), \<^verbatim>\<open>keys\<close>,
    \<^verbatim>\<open>vals\<close> (repeated \<^verbatim>\<open>uint32\<close>) and \<^verbatim>\<open>keys_vals\<close> (repeated
    \<^verbatim>\<open>int32\<close>).
\<close>

record LatpLon =
  latp :: int32_t
  lon :: int32_t

record ('nid, 'wid) OSMStore =
  nodes :: "'nid \<rightharpoonup> LatpLon"
  ways :: "'wid \<rightharpoonup> 'nid list"

record Way =
  way_id :: uint64_t
  way_keys :: "uint list"
  way_vals :: "uint list"

record Relation =
  relation_id :: uint64_t
  relation_keys :: "uint list"
  relation_vals :: "uint list"

record DenseNodes =
  keys_vals :: "int32_t list"

text \<open>
  Modelled from the spec: the geometry types of \<^verbatim>\<open>geomtypes.h\<close>. Geometry lives in
  the projected coordinate space of the store, so a point is a \<open>LatpLon\<close>; a line is
  a point sequence; a polygon has an outer ring and inner rings; a multi-polygon keeps
  the outer and inner rings of a relation with their stored classification.
\<close>

type_synonym Point = LatpLon
type_synonym Linestring = "Point list"

record Polygon =
  outer :: "Point list"
  inners :: "Point list list"

record MultiPolygon =
  outer_rings :: "Point list list"
  inner_rings :: "Point list list"

datatype Geometry =
  GeomPoint Point
| GeomLinestring Linestring
| GeomPolygon Polygon
| GeomMultiPolygon MultiPolygon

text \<open>
  Modelled from the spec: a spatial index of \<^verbatim>\<open>geomtypes.h\<close> answers a box query
  with \<open>(bounding box, candidate id)\<close> pairs; it is kept as the list of its entries,
  a box being its minimum and maximum corner.
\<close>

type_synonym Box = "Point \<times> Point"
type_synonym IndexValue = "Box \<times> uint"
type_synonym RTree = "IndexValue list"

text \<open>
  Modelled from the spec: an output feature of \<^verbatim>\<open>output_object.h\<close> is a record of
  a layer index, a geometry and an attribute set.
\<close>

record OutputObject =
  layer :: uint
  geometry :: Geometry
  attributes :: "(string \<times> string) list"

subsection \<open>\<^verbatim>\<open>struct LayerDef\<close> and \<^verbatim>\<open>class OSMObject\<close>\<close>

text \<open>
  A \<^verbatim>\<open>std::map\<close> is a red-black tree with unique keys, iterated in key order:
  \<open>('k, 'v) rbt\<close>. A pointer to an object the context only reads (\<^verbatim>\<open>indices\<close>,
  \<^verbatim>\<open>cachedGeometries\<close>, \<^verbatim>\<open>cachedGeometryNames\<close>, \<^verbatim>\<open>osmStore\<close>,
  \<^verbatim>\<open>nodeVec\<close>, \<^verbatim>\<open>outerWayVec\<close>, \<^verbatim>\<open>innerWayVec\<close>, \<^verbatim>\<open>densePtr\<close>,
  \<^verbatim>\<open>keysPtr\<close>, \<^verbatim>\<open>valsPtr\<close>) is kept as the object it points to; the Lua state
  is kept as its address.
\<close>

record LayerDef =
  name :: string
  minzoom :: uint
  maxzoom :: uint
  simplifyBelow :: uint
  simplifyLevel :: real
  simplifyLength :: real
  simplifyRatio :: real
  attributeMap :: "(string, uint) rbt"

record ('nid, 'wid) OSMObject =
  luaState :: nat
  indices :: "(string, RTree) rbt"
  cachedGeometries :: "Geometry list"
  cachedGeometryNames :: "(uint, string) rbt"
  osmStore :: "('nid, 'wid) OSMStore"
  osmID :: uint64_t
  newWayID :: "'wid"
  isWay :: bool
  isRelation :: bool
  lon1 :: int32_t
  latp1 :: int32_t
  lon2 :: int32_t
  latp2 :: int32_t
  nodeVec :: "'nid list"
  outerWayVec :: "'wid list"
  innerWayVec :: "'wid list"
  linestringCache :: Linestring
  linestringInited :: bool
  polygonCache :: Polygon
  polygonInited :: bool
  multiPolygonCache :: MultiPolygon
  multiPolygonInited :: bool
  layers :: "LayerDef list"
  layerMap :: "(string, uint) rbt"
  layerOrder :: "uint list list"
  outputs :: "OutputObject list"
  stringTable :: "string list"
  tagMap :: "(string, uint) rbt"
  denseStart :: uint
  denseEnd :: uint
  densePtr :: DenseNodes
  keysPtr :: "uint list"
  valsPtr :: "uint list"
  tagLength :: uint

subsection \<open>Results of a call\<close>

text \<open>
  A member function returns, or throws with the context left as it was at the throw, or
  its behaviour is undefined (\<^verbatim>\<open>front()\<close> of an empty vector, a read outside an
  array). The only exception the header throws is \<^verbatim>\<open>std::out_of_range\<close>, with its
  message.
\<close>

datatype exn = out_of_range string

datatype ('r, 's) outcome =
  Returned 'r 's
| Threw exn 's
| Undefined

text \<open>What \<^verbatim>\<open>ss << osmID\<close> writes: the decimal digits of an unsigned value.\<close>

definition digit :: "nat \<Rightarrow> char" where
  "digit d = ''0123456789'' ! d"

function decimal :: "nat \<Rightarrow> string" where
  "decimal n = (if n < 10 then [digit n] else decimal (n div 10) @ [digit (n mod 10)])"
  by pat_completeness auto
termination
  by (relation "measure (\<lambda>n. n)") auto

declare decimal.simps [simp del]

subsection \<open>The inline member functions\<close>

text \<open>\<^verbatim>\<open>reset\<close> (lines 163 to 168).\<close>

definition reset :: "('nid, 'wid) OSMObject \<Rightarrow> ('nid, 'wid) OSMObject" where
  "reset s = s\<lparr>outputs := [],
               linestringInited := False,
               polygonInited := False,
               multiPolygonInited := False\<rparr>"

text \<open>\<^verbatim>\<open>setLocation\<close> (lines 171 to 173).\<close>

definition setLocation ::
  "int32_t \<Rightarrow> int32_t \<Rightarrow> int32_t \<Rightarrow> int32_t \<Rightarrow> ('nid, 'wid) OSMObject \<Rightarrow> ('nid, 'wid) OSMObject"
where
  "setLocation a b c d s = s\<lparr>lon1 := a, latp1 := b, lon2 := c, latp2 := d\<rparr>"

text \<open>
  \<^verbatim>\<open>setNode\<close> (lines 106 to 117). The \<^verbatim>\<open>int\<close> arguments \<^verbatim>\<open>kvStart\<close> and
  \<^verbatim>\<open>kvEnd\<close> are stored into \<^verbatim>\<open>uint\<close> fields with the same bits.
\<close>

definition setNode ::
  "'n::len word \<Rightarrow> DenseNodes \<Rightarrow> int32_t \<Rightarrow> int32_t \<Rightarrow> LatpLon \<Rightarrow>
   ('n word, 'wid) OSMObject \<Rightarrow> ('n word, 'wid) OSMObject"
where
  "setNode id' dPtr kvStart kvEnd node s =
    (let s1 = reset s;
         s2 = s1\<lparr>osmID := ucast id', isWay := False, isRelation := False\<rparr>;
         s3 = setLocation (lon node) (latp node) (lon node) (latp node) s2
     in s3\<lparr>denseStart := kvStart, denseEnd := kvEnd, densePtr := dPtr\<rparr>)"

text \<open>
  \<^verbatim>\<open>setWay\<close> (lines 120 to 142). The four lookups are only of
  \<^verbatim>\<open>nodeVec->front()\<close> and \<^verbatim>\<open>nodeVec->back()\<close>; whichever of them fails first,
  the \<^verbatim>\<open>catch\<close> clause throws the same new exception, after \<^verbatim>\<open>reset\<close> and the
  four assignments before the \<^verbatim>\<open>try\<close> block. \<^verbatim>\<open>front()\<close> of an empty vector
  is undefined behaviour.
\<close>

definition setWay ::
  "Way \<Rightarrow> 'nid list \<Rightarrow> ('nid, 'wid) OSMObject \<Rightarrow> (unit, ('nid, 'wid) OSMObject) outcome"
where
  "setWay way nodeVecPtr s =
    (let s1 = reset s;
         s2 = s1\<lparr>osmID := way_id way, isWay := True, isRelation := False,
                 nodeVec := nodeVecPtr\<rparr>
     in if nodeVec s2 = [] then Undefined
        else
          (case (nodes (osmStore s2) (hd (nodeVec s2)),
                 nodes (osmStore s2) (last (nodeVec s2))) of
             (Some a, Some b) \<Rightarrow>
               Returned ()
                 ((setLocation (lon a) (latp a) (lon b) (latp b) s2)
                    \<lparr>keysPtr := way_keys way,
                     valsPtr := way_vals way,
                     tagLength := of_nat (length (way_keys way))\<rparr>)
           | _ \<Rightarrow>
               Threw (out_of_range
                        (''Way '' @ decimal (unat (osmID s2)) @ '' is missing a node''))
                     s2))"

text \<open>
  \<^verbatim>\<open>setRelation\<close> (lines 147 to 160). \<^verbatim>\<open>--newWayID\<close> wraps at zero, as
  unsigned arithmetic does; the new counter value is widened to the 64-bit \<^verbatim>\<open>osmID\<close>.
  The call of \<^verbatim>\<open>setLocation\<close> is commented out in the source.
\<close>

definition setRelation ::
  "Relation \<Rightarrow> 'w::len word list \<Rightarrow> 'w word list \<Rightarrow>
   ('nid, 'w word) OSMObject \<Rightarrow> ('nid, 'w word) OSMObject"
where
  "setRelation relation outerWayVecPtr innerWayVecPtr s =
    (let s1 = reset s;
         s2 = s1\<lparr>newWayID := newWayID s1 - 1\<rparr>;
         s3 = s2\<lparr>osmID := ucast (newWayID s2), isWay := True, isRelation := True,
                 outerWayVec := outerWayVecPtr, innerWayVec := innerWayVecPtr\<rparr>
     in s3\<lparr>keysPtr := relation_keys relation,
           valsPtr := relation_vals relation,
           tagLength := of_nat (length (relation_keys relation))\<rparr>)"

subsection \<open>Observations on results\<close>

text \<open>
  Whether a call returned, and the context a call leaves behind (none when its behaviour
  is undefined). A context is cleared when its output queue is empty and its three
  validity flags are false. \<open>missing_node_message\<close> is the text the \<^verbatim>\<open>catch\<close>
  clause of \<^verbatim>\<open>setWay\<close> builds from \<^verbatim>\<open>osmID\<close>.
\<close>

fun returned :: "('r, 's) outcome \<Rightarrow> bool" where
  "returned (Returned r s) = True"
| "returned (Threw e s) = False"
| "returned Undefined = False"

fun context_after :: "('r, 's) outcome \<Rightarrow> 's option" where
  "context_after (Returned r s) = Some s"
| "context_after (Threw e s) = Some s"
| "context_after Undefined = None"

definition cleared :: "('nid, 'wid) OSMObject \<Rightarrow> bool" where
  "cleared s \<longleftrightarrow>
     outputs s = [] \<and> \<not> linestringInited s \<and> \<not> polygonInited s \<and> \<not> multiPolygonInited s"

definition missing_node_message :: "uint64_t \<Rightarrow> string" where
  "missing_node_message i = ''Way '' @ decimal (unat i) @ '' is missing a node''"

subsection \<open>A run of the context over a sequence of primitives\<close>

text \<open>
  Modelled from the spec: the decoding pipeline that calls the context is not among the
  sources. It hands the context one primitive at a time, and after a missing-node failure
  it either skips the feature or aborts the block (\<open>abort\<close>). \<open>run\<close> lists, for
  every begin call that returned, the flag \<^verbatim>\<open>isRelation\<close> and the \<^verbatim>\<open>osmID\<close>
  the call left; it ends where a call has undefined behaviour. The synthetic ids of a run
  are the ids of its relations, the genuine way ids are those of the ways supplied.
\<close>

datatype ('nid, 'wid) primitive =
  NodePrimitive 'nid DenseNodes int32_t int32_t LatpLon
| WayPrimitive Way "'nid list"
| RelationPrimitive Relation "'wid list" "'wid list"

fun run ::
  "bool \<Rightarrow> ('n::len word, 'w::len word) primitive list \<Rightarrow> ('n word, 'w word) OSMObject \<Rightarrow>
   (bool \<times> uint64_t) list"
where
  "run abort [] s = []"
| "run abort (NodePrimitive i d a b n # ps) s =
     (let s' = setNode i d a b n s in (isRelation s', osmID s') # run abort ps s')"
| "run abort (WayPrimitive w nv # ps) s =
     (case setWay w nv s of
        Returned u s' \<Rightarrow> (isRelation s', osmID s') # run abort ps s'
      | Threw e s' \<Rightarrow> (if abort then [] else run abort ps s')
      | Undefined \<Rightarrow> [])"
| "run abort (RelationPrimitive r ow iw # ps) s =
     (let s' = setRelation r ow iw s in (isRelation s', osmID s') # run abort ps s')"

definition synthetic_ids ::
  "bool \<Rightarrow> ('n::len word, 'w::len word) primitive list \<Rightarrow> ('n word, 'w word) OSMObject \<Rightarrow>
   uint64_t list"
where
  "synthetic_ids abort ps s = map snd (filter fst (run abort ps s))"

fun way_ids :: "('nid, 'wid) primitive list \<Rightarrow> uint64_t list" where
  "way_ids [] = []"
| "way_ids (WayPrimitive w nv # ps) = way_id w # way_ids ps"
| "way_ids (p # ps) = way_ids ps"

fun relation_count :: "('nid, 'wid) primitive list \<Rightarrow> nat" where
  "relation_count [] = 0"
| "relation_count (RelationPrimitive r ow iw # ps) = Suc (relation_count ps)"
| "relation_count (p # ps) = relation_count ps"

section \<open>Member functions that the header only declares\<close>

text \<open>
  The definitions of the member functions below are in \<^verbatim>\<open>osm_object.cpp\<close>, which
  is not among the sources. Each is modelled from the spec, section by section.
\<close>

subsection \<open>Tag lookup (spec 4.2)\<close>

text \<open>
  Modelled from the spec: \<^verbatim>\<open>findStringPosition\<close> (line 101) and \<^verbatim>\<open>Find\<close>
  (line 184), whose definitions are missing. The spec: \<open>stringTablePosition(str)\<close>
  gives an optional index, read from the string-to-position map. \<open>getTag(key)\<close> gives a
  string, empty if absent. For way or relation identity it scans the parallel key and
  value id arrays (length = tag length) for a key id matching the position of the key;
  an absent key id means the tag cannot be present, and the scan is short-circuited. For
  node identity it iterates the dense sub-range; each step reads a key id; if zero, the
  tag list has ended (miss); otherwise it reads the following value id and compares the
  key id to the target. A read outside an array or outside the string table is undefined
  in C++ and gives \<open>None\<close> here.
\<close>

definition findStringPosition :: "string \<Rightarrow> ('nid, 'wid) OSMObject \<Rightarrow> uint option" where
  "findStringPosition str s = RBT.lookup (tagMap s) str"

definition stringAt :: "string list \<Rightarrow> uint \<Rightarrow> string option" where
  "stringAt tbl v = (if unat v < length tbl then Some (tbl ! unat v) else None)"

fun scan_tags :: "uint list \<Rightarrow> uint list \<Rightarrow> string list \<Rightarrow> uint \<Rightarrow> nat list \<Rightarrow> string option" where
  "scan_tags ks vs tbl p [] = Some ''''"
| "scan_tags ks vs tbl p (n # ns) =
     (if n < length ks
      then (if ks ! n = p
            then (if n < length vs then stringAt tbl (vs ! n) else None)
            else scan_tags ks vs tbl p ns)
      else None)"

function dense_scan ::
  "int32_t list \<Rightarrow> string list \<Rightarrow> uint option \<Rightarrow> nat \<Rightarrow> nat \<Rightarrow> string option"
where
  "dense_scan kv tbl target e n =
     (if n < e
      then (if n < length kv
            then (if kv ! n = 0 then Some ''''
                  else if Suc n < length kv
                       then (if Some (kv ! n) = target then stringAt tbl (kv ! Suc n)
                             else dense_scan kv tbl target e (n + 2))
                       else None)
            else None)
      else Some '''')"
  by pat_completeness auto
termination
  by (relation "measure (\<lambda>(kv, tbl, target, e, n). e - n)") auto

declare dense_scan.simps [simp del]

definition Find :: "string \<Rightarrow> ('nid, 'wid) OSMObject \<Rightarrow> string option" where
  "Find key s =
     (if isWay s
      then
        (case findStringPosition key s of
           None \<Rightarrow> Some ''''
         | Some p \<Rightarrow>
             scan_tags (keysPtr s) (valsPtr s) (stringTable s) p [0..<unat (tagLength s)])
      else
        dense_scan (keys_vals (densePtr s)) (stringTable s) (findStringPosition key s)
          (unat (denseEnd s)) (unat (denseStart s)))"

subsection \<open>Lazy geometry (spec 4.3)\<close>

text \<open>
  Modelled from the spec: \<^verbatim>\<open>linestring\<close>, \<^verbatim>\<open>polygon\<close> and \<^verbatim>\<open>multiPolygon\<close>
  (lines 211 to 215), whose definitions are missing, and the store functions they build
  with. The spec: each accessor builds lazily and memoizes on first call per feature
  lifetime, behind its validity flag. Line geometry resolves every referenced node id
  through the store, in reference order; a missing node is a failure identical to the
  one of the way lookup. Polygon geometry is the same node sequence as a ring, built
  whether or not the ring is closed. Multi-polygon geometry resolves each way of the
  outer and inner collections to a ring and keeps the stored classification.
  \<open>result_of\<close> is the value a call returned, if it returned.
\<close>

fun result_of :: "('r, 's) outcome \<Rightarrow> 'r option" where
  "result_of (Returned r s) = Some r"
| "result_of (Threw e s) = None"
| "result_of Undefined = None"

fun resolve_nodes :: "('nid, 'wid) OSMStore \<Rightarrow> 'nid list \<Rightarrow> Linestring option" where
  "resolve_nodes st [] = Some []"
| "resolve_nodes st (n # ns) =
     (case nodes st n of
        None \<Rightarrow> None
      | Some p \<Rightarrow> (case resolve_nodes st ns of None \<Rightarrow> None | Some ps \<Rightarrow> Some (p # ps)))"

fun resolve_ways :: "('nid, 'wid) OSMStore \<Rightarrow> 'wid list \<Rightarrow> Linestring list option" where
  "resolve_ways st [] = Some []"
| "resolve_ways st (w # ws) =
     (case ways st w of
        None \<Rightarrow> None
      | Some ns \<Rightarrow>
          (case resolve_nodes st ns of
             None \<Rightarrow> None
           | Some ring \<Rightarrow>
               (case resolve_ways st ws of None \<Rightarrow> None | Some rings \<Rightarrow> Some (ring # rings))))"

definition build_polygon :: "('nid, 'wid) OSMStore \<Rightarrow> 'nid list \<Rightarrow> Polygon option" where
  "build_polygon st ns =
     (case resolve_nodes st ns of
        None \<Rightarrow> None
      | Some ring \<Rightarrow> Some \<lparr>outer = ring, inners = []\<rparr>)"

definition build_multiPolygon ::
  "('nid, 'wid) OSMStore \<Rightarrow> 'wid list \<Rightarrow> 'wid list \<Rightarrow> MultiPolygon option"
where
  "build_multiPolygon st outers inners' =
     (case resolve_ways st outers of
        None \<Rightarrow> None
      | Some os \<Rightarrow>
          (case resolve_ways st inners' of
             None \<Rightarrow> None
           | Some is \<Rightarrow> Some \<lparr>outer_rings = os, inner_rings = is\<rparr>))"

definition linestring ::
  "('nid, 'wid) OSMObject \<Rightarrow> (Linestring, ('nid, 'wid) OSMObject) outcome"
where
  "linestring s =
     (if linestringInited s then Returned (linestringCache s) s
      else
        (case resolve_nodes (osmStore s) (nodeVec s) of
           None \<Rightarrow> Threw (out_of_range (missing_node_message (osmID s))) s
         | Some g \<Rightarrow> Returned g (s\<lparr>linestringCache := g, linestringInited := True\<rparr>)))"

definition polygon ::
  "('nid, 'wid) OSMObject \<Rightarrow> (Polygon, ('nid, 'wid) OSMObject) outcome"
where
  "polygon s =
     (if polygonInited s then Returned (polygonCache s) s
      else
        (case build_polygon (osmStore s) (nodeVec s) of
           None \<Rightarrow> Threw (out_of_range (missing_node_message (osmID s))) s
         | Some g \<Rightarrow> Returned g (s\<lparr>polygonCache := g, polygonInited := True\<rparr>)))"

definition multiPolygon ::
  "('nid, 'wid) OSMObject \<Rightarrow> (MultiPolygon, ('nid, 'wid) OSMObject) outcome"
where
  "multiPolygon s =
     (if multiPolygonInited s then Returned (multiPolygonCache s) s
      else
        (case build_multiPolygon (osmStore s) (outerWayVec s) (innerWayVec s) of
           None \<Rightarrow> Threw (out_of_range (missing_node_message (osmID s))) s
         | Some g \<Rightarrow> Returned g (s\<lparr>multiPolygonCache := g, multiPolygonInited := True\<rparr>)))"

text \<open>
  Modelled from the spec: the scripting callback, which is not among the sources, calls
  the accessors during the lifetime of a feature, in any order and any number of times.
  \<open>calls\<close> runs a sequence of accessor calls, each in the context the previous one
  left (also when it threw), and gives the geometry each call returned, if it returned,
  and the final context. \<open>build\<close> is what an accessor builds from a store, a node
  list and the outer and inner way lists; \<open>built\<close> takes them from a context. The
  caches of a context are valid when every cache whose flag is set holds what its builder
  gives for the current references.
\<close>

datatype accessor = AsLine | AsPolygon | AsMultiPolygon

fun build ::
  "accessor \<Rightarrow> ('nid, 'wid) OSMStore \<Rightarrow> 'nid list \<Rightarrow> 'wid list \<Rightarrow> 'wid list \<Rightarrow> Geometry option"
where
  "build AsLine st nv ow iw = map_option GeomLinestring (resolve_nodes st nv)"
| "build AsPolygon st nv ow iw = map_option GeomPolygon (build_polygon st nv)"
| "build AsMultiPolygon st nv ow iw = map_option GeomMultiPolygon (build_multiPolygon st ow iw)"

definition built :: "accessor \<Rightarrow> ('nid, 'wid) OSMObject \<Rightarrow> Geometry option" where
  "built a s = build a (osmStore s) (nodeVec s) (outerWayVec s) (innerWayVec s)"

fun observe :: "('r \<Rightarrow> Geometry) \<Rightarrow> 's \<Rightarrow> ('r, 's) outcome \<Rightarrow> Geometry option \<times> 's" where
  "observe f s (Returned g s') = (Some (f g), s')"
| "observe f s (Threw e s') = (None, s')"
| "observe f s Undefined = (None, s)"

fun access ::
  "accessor \<Rightarrow> ('nid, 'wid) OSMObject \<Rightarrow> Geometry option \<times> ('nid, 'wid) OSMObject"
where
  "access AsLine s = observe GeomLinestring s (linestring s)"
| "access AsPolygon s = observe GeomPolygon s (polygon s)"
| "access AsMultiPolygon s = observe GeomMultiPolygon s (multiPolygon s)"

fun calls ::
  "accessor list \<Rightarrow> ('nid, 'wid) OSMObject \<Rightarrow> Geometry option list \<times> ('nid, 'wid) OSMObject"
where
  "calls [] s = ([], s)"
| "calls (a # as) s =
     (case access a s of
        (g, s') \<Rightarrow> (case calls as s' of (gs, s'') \<Rightarrow> (g # gs, s'')))"

definition caches_valid :: "('nid, 'wid) OSMObject \<Rightarrow> bool" where
  "caches_valid s \<longleftrightarrow>
     (linestringInited s \<longrightarrow>
        resolve_nodes (osmStore s) (nodeVec s) = Some (linestringCache s)) \<and>
     (polygonInited s \<longrightarrow>
        build_polygon (osmStore s) (nodeVec s) = Some (polygonCache s)) \<and>
     (multiPolygonInited s \<longrightarrow>
        build_multiPolygon (osmStore s) (outerWayVec s) (innerWayVec s) =
          Some (multiPolygonCache s))"

definition same_references :: "('nid, 'wid) OSMObject \<Rightarrow> ('nid, 'wid) OSMObject \<Rightarrow> bool" where
  "same_references s' s \<longleftrightarrow>
     osmStore s' = osmStore s \<and> nodeVec s' = nodeVec s \<and>
     outerWayVec s' = outerWayVec s \<and> innerWayVec s' = innerWayVec s"

subsection \<open>Spatial queries (spec 4.4)\<close>

text \<open>
  Modelled from the spec: \<^verbatim>\<open>FindIntersecting\<close>, \<^verbatim>\<open>Intersects\<close>,
  \<^verbatim>\<open>findIntersectingGeometries\<close>, \<^verbatim>\<open>verifyIntersectResults\<close> and
  \<^verbatim>\<open>namesOfGeometries\<close> (lines 190 to 194), whose definitions are missing. The
  spec: compute the bounding box of the current feature from its endpoint coordinates;
  query the named index for the candidates whose boxes overlap; accept a candidate only
  after an exact geometric test against its stored geometry; return the verified,
  deduplicated names, or whether there is any. A multi-polygon relation as the subject
  deterministically gives no match. The exact test belongs to the geometry library and
  is the parameter \<open>exact\<close>; a layer name with no index has no candidates.
\<close>

definition box_of :: "Point \<Rightarrow> Point \<Rightarrow> Box" where
  "box_of p q =
     (\<lparr>latp = (if sint (latp p) \<le> sint (latp q) then latp p else latp q),
       lon = (if sint (lon p) \<le> sint (lon q) then lon p else lon q)\<rparr>,
      \<lparr>latp = (if sint (latp p) \<le> sint (latp q) then latp q else latp p),
       lon = (if sint (lon p) \<le> sint (lon q) then lon q else lon p)\<rparr>)"

definition boxes_overlap :: "Box \<Rightarrow> Box \<Rightarrow> bool" where
  "boxes_overlap a b \<longleftrightarrow>
     sint (lon (fst a)) \<le> sint (lon (snd b)) \<and> sint (lon (fst b)) \<le> sint (lon (snd a)) \<and>
     sint (latp (fst a)) \<le> sint (latp (snd b)) \<and> sint (latp (fst b)) \<le> sint (latp (snd a))"

definition query :: "RTree \<Rightarrow> Box \<Rightarrow> IndexValue list" where
  "query tree box = filter (\<lambda>v. boxes_overlap (fst v) box) tree"

definition verifyIntersectResults ::
  "(Geometry \<Rightarrow> Point \<Rightarrow> Point \<Rightarrow> bool) \<Rightarrow> Geometry list \<Rightarrow> IndexValue list \<Rightarrow>
   Point \<Rightarrow> Point \<Rightarrow> uint list"
where
  "verifyIntersectResults exact geoms results p1 p2 =
     map snd
       (filter (\<lambda>v. unat (snd v) < length geoms \<and> exact (geoms ! unat (snd v)) p1 p2) results)"

definition findIntersectingGeometries ::
  "(Geometry \<Rightarrow> Point \<Rightarrow> Point \<Rightarrow> bool) \<Rightarrow> string \<Rightarrow> ('nid, 'wid) OSMObject \<Rightarrow> uint list"
where
  "findIntersectingGeometries exact layerName s =
     (if isRelation s then []
      else
        (case RBT.lookup (indices s) layerName of
           None \<Rightarrow> []
         | Some tree \<Rightarrow>
             (let p1 = \<lparr>latp = latp1 s, lon = lon1 s\<rparr>;
                  p2 = \<lparr>latp = latp2 s, lon = lon2 s\<rparr>
              in verifyIntersectResults exact (cachedGeometries s)
                   (query tree (box_of p1 p2)) p1 p2)))"

definition namesOfGeometries :: "(uint, string) rbt \<Rightarrow> uint list \<Rightarrow> string list" where
  "namesOfGeometries names ids =
     remdups (concat (map (\<lambda>i. case RBT.lookup names i of None \<Rightarrow> [] | Some n \<Rightarrow> [n]) ids))"

definition FindIntersecting ::
  "(Geometry \<Rightarrow> Point \<Rightarrow> Point \<Rightarrow> bool) \<Rightarrow> string \<Rightarrow> ('nid, 'wid) OSMObject \<Rightarrow> string list"
where
  "FindIntersecting exact layerName s =
     namesOfGeometries (cachedGeometryNames s) (findIntersectingGeometries exact layerName s)"

definition Intersects ::
  "(Geometry \<Rightarrow> Point \<Rightarrow> Point \<Rightarrow> bool) \<Rightarrow> string \<Rightarrow> ('nid, 'wid) OSMObject \<Rightarrow> bool"
where
  "Intersects exact layerName s \<longleftrightarrow> findIntersectingGeometries exact layerName s \<noteq> []"

subsection \<open>Layer metadata (spec 4.6 and 6)\<close>

text \<open>
  Modelled from the spec: \<^verbatim>\<open>serialiseLayerJSON\<close> (line 231), whose definition is
  missing. The spec (external interfaces): the layer metadata document is a JSON object
  with the top-level array \<open>vector_layers\<close>, each entry
  \<open>{id, minzoom, maxzoom, fields: {attributeKey: typeTag}}\<close>, one entry for every
  registered layer, with its name, its zoom range and its mapping from attribute key to
  numeric type tag. The registered layers are the vector \<^verbatim>\<open>layers\<close>, in index order
  (registering a layer assigns the next index); the recorded types of a layer are its
  \<^verbatim>\<open>attributeMap\<close>. The document is kept as a JSON value; \<open>members\<close> and
  \<open>member\<close> read an object.
\<close>

datatype json =
  JString string
| JNumber uint
| JObject "(string \<times> json) list"
| JArray "json list"

fun members :: "json \<Rightarrow> (string \<times> json) list" where
  "members (JObject ms) = ms"
| "members j = []"

definition member :: "string \<Rightarrow> json \<Rightarrow> json option" where
  "member k j = map_of (members j) k"

definition layer_fields :: "LayerDef \<Rightarrow> json" where
  "layer_fields l = JObject (map (\<lambda>(k, ty). (k, JNumber ty)) (RBT.entries (attributeMap l)))"

definition layer_entry :: "LayerDef \<Rightarrow> json" where
  "layer_entry l =
     JObject [(''id'', JString (name l)),
              (''minzoom'', JNumber (minzoom l)),
              (''maxzoom'', JNumber (maxzoom l)),
              (''fields'', layer_fields l)]"

definition serialiseLayerJSON :: "('nid, 'wid) OSMObject \<Rightarrow> json" where
  "serialiseLayerJSON s = JObject [(''vector_layers'', JArray (map layer_entry (layers s)))]"

subsection \<open>Concrete contexts used by the examples\<close>

definition example_store :: "(64 word, 32 word) OSMStore" where
  "example_store =
    \<lparr>nodes = [1 \<mapsto> \<lparr>latp = 10, lon = 20\<rparr>, 3 \<mapsto> \<lparr>latp = 30, lon = 40\<rparr>],
     ways = Map.empty\<rparr>"

definition example_context :: "(64 word, 32 word) OSMObject" where
  "example_context =
    \<lparr>luaState = 0,
     indices = RBT.empty,
     cachedGeometries = [],
     cachedGeometryNames = RBT.empty,
     osmStore = example_store,
     osmID = 7,
     newWayID = 4294967295,
     isWay = False,
     isRelation = False,
     lon1 = 5, latp1 = 6, lon2 = 5, latp2 = 6,
     nodeVec = [],
     outerWayVec = [],
     innerWayVec = [],
     linestringCache = [\<lparr>latp = 1, lon = 2\<rparr>],
     linestringInited = True,
     polygonCache = \<lparr>outer = [], inners = []\<rparr>,
     polygonInited = True,
     multiPolygonCache = \<lparr>outer_rings = [], inner_rings = []\<rparr>,
     multiPolygonInited = True,
     layers = [],
     layerMap = RBT.empty,
     layerOrder = [],
     outputs = [\<lparr>layer = 0, geometry = GeomPoint \<lparr>latp = 6, lon = 5\<rparr>, attributes = []\<rparr>],
     stringTable = ['''', ''highway'', ''primary'', ''name'', ''High Street''],
     tagMap = RBT.bulkload
       [('''', 0), (''highway'', 1), (''primary'', 2), (''name'', 3), (''High Street'', 4)],
     denseStart = 0,
     denseEnd = 0,
     densePtr = \<lparr>keys_vals = []\<rparr>,
     keysPtr = [],
     valsPtr = [],
     tagLength = 0\<rparr>"

definition example_way :: Way where
  "example_way = \<lparr>way_id = 42, way_keys = [1, 3], way_vals = [2, 4]\<rparr>"

definition example_relation :: Relation where
  "example_relation = \<lparr>relation_id = 99, relation_keys = [1], relation_vals = [2]\<rparr>"

definition three_relations :: "(64 word, 32 word) primitive list" where
  "three_relations =
    [RelationPrimitive example_relation [11] [12],
     WayPrimitive example_way [1, 3],
     RelationPrimitive example_relation [13] [],
     NodePrimitive 1 \<lparr>keys_vals = []\<rparr> 0 0 \<lparr>latp = 10, lon = 20\<rparr>,
     RelationPrimitive example_relation [14] []]"

definition example_tagged :: "(64 word, 32 word) OSMObject" where
  "example_tagged =
     example_context\<lparr>isWay := True, keysPtr := [1, 3, 1], valsPtr := [2, 4, 0], tagLength := 3\<rparr>"

definition example_indexed :: "(64 word, 32 word) OSMObject" where
  "example_indexed =
     example_context
       \<lparr>indices := RBT.insert ''parks''
          [((\<lparr>latp = 0, lon = 0\<rparr>, \<lparr>latp = 100, lon = 100\<rparr>), 0)] RBT.empty,
        cachedGeometries := [GeomPoint \<lparr>latp = 6, lon = 5\<rparr>],
        cachedGeometryNames := RBT.insert 0 ''Central Park'' RBT.empty\<rparr>"

definition example_layers :: "(64 word, 32 word) OSMObject" where
  "example_layers =
     example_context
       \<lparr>layers :=
          [\<lparr>name = ''roads'', minzoom = 4, maxzoom = 14, simplifyBelow = 12,
            simplifyLevel = 0, simplifyLength = 0, simplifyRatio = 1,
            attributeMap = RBT.insert ''lanes'' 1 (RBT.insert ''class'' 0 RBT.empty)\<rparr>,
           \<lparr>name = ''buildings'', minzoom = 13, maxzoom = 14, simplifyBelow = 0,
            simplifyLevel = 0, simplifyLength = 0, simplifyRatio = 1,
            attributeMap =
              RBT.insert ''name'' 0
                (RBT.insert ''listed'' 2
                   (RBT.insert ''height'' 1 (RBT.insert ''name'' 0 RBT.empty)))\<rparr>]\<rparr>"

section \<open>Properties of the inline functions\<close>

subsection \<open>\<^verbatim>\<open>reset\<close>\<close>

text \<open>
  C8. \<^verbatim>\<open>reset\<close> is idempotent: a second call changes nothing. It has no
  precondition: for every context whatsoever, one that no \<^verbatim>\<open>set*\<close> call has touched
  included, it returns the context with an empty output queue and the three validity
  flags cleared.
\<close>

theorem reset_idempotent:
  "reset (reset s) = reset s \<and>
   outputs (reset s) = [] \<and>
   \<not> linestringInited (reset s) \<and>
   \<not> polygonInited (reset s) \<and>
   \<not> multiPolygonInited (reset s)"
  by (simp add: reset_def)

text \<open>
  C10. \<^verbatim>\<open>reset\<close> writes the output queue and the three validity flags only: every
  other field of the context (the collaborators, the identity fields and the counter
  \<^verbatim>\<open>newWayID\<close>, the endpoints and reference lists, the contents of the three
  geometry caches, the layer registry, the string table and its reverse map, the
  tag-resolution ranges and arrays) has the value it had before.
\<close>

theorem reset_frame:
  "luaState (reset s) = luaState s \<and>
   indices (reset s) = indices s \<and>
   cachedGeometries (reset s) = cachedGeometries s \<and>
   cachedGeometryNames (reset s) = cachedGeometryNames s \<and>
   osmStore (reset s) = osmStore s \<and>
   osmID (reset s) = osmID s \<and>
   newWayID (reset s) = newWayID s \<and>
   isWay (reset s) = isWay s \<and>
   isRelation (reset s) = isRelation s \<and>
   lon1 (reset s) = lon1 s \<and>
   latp1 (reset s) = latp1 s \<and>
   lon2 (reset s) = lon2 s \<and>
   latp2 (reset s) = latp2 s \<and>
   nodeVec (reset s) = nodeVec s \<and>
   outerWayVec (reset s) = outerWayVec s \<and>
   innerWayVec (reset s) = innerWayVec s \<and>
   linestringCache (reset s) = linestringCache s \<and>
   polygonCache (reset s) = polygonCache s \<and>
   multiPolygonCache (reset s) = multiPolygonCache s \<and>
   layers (reset s) = layers s \<and>
   layerMap (reset s) = layerMap s \<and>
   layerOrder (reset s) = layerOrder s \<and>
   stringTable (reset s) = stringTable s \<and>
   tagMap (reset s) = tagMap s \<and>
   denseStart (reset s) = denseStart s \<and>
   denseEnd (reset s) = denseEnd s \<and>
   densePtr (reset s) = densePtr s \<and>
   keysPtr (reset s) = keysPtr s \<and>
   valsPtr (reset s) = valsPtr s \<and>
   tagLength (reset s) = tagLength s"
  by (simp add: reset_def)

subsection \<open>The message of the missing-node exception\<close>

text \<open>
  The decimal text of a number determines the number, so the message determines the way
  id it was built from.
\<close>

lemma digit_inj: "a < 10 \<Longrightarrow> b < 10 \<Longrightarrow> digit a = digit b \<Longrightarrow> a = b"
proof -
  assume a: "a < 10" and b: "b < 10" and e: "digit a = digit b"
  have d: "distinct ''0123456789''" by simp
  have "length ''0123456789'' = 10" by simp
  with a b e d show ?thesis
    unfolding digit_def by (metis nth_eq_iff_index_eq)
qed

lemma decimal_nonempty: "decimal n \<noteq> []"
  by (subst decimal.simps) simp

lemma decimal_inj: "decimal m = decimal n \<Longrightarrow> m = n"
proof (induction m arbitrary: n rule: decimal.induct)
  case (1 m)
  show ?case
  proof (cases "m < 10")
    case True
    then have m1: "decimal m = [digit m]" by (subst decimal.simps) simp
    show ?thesis
    proof (cases "n < 10")
      case True
      then have "decimal n = [digit n]" by (subst decimal.simps) simp
      with m1 "1.prems" have "digit m = digit n" by simp
      with \<open>m < 10\<close> True show ?thesis by (rule digit_inj)
    next
      case False
      then have "decimal n = decimal (n div 10) @ [digit (n mod 10)]"
        by (subst decimal.simps) simp
      with m1 "1.prems" have "decimal (n div 10) = []" by simp
      with decimal_nonempty show ?thesis by blast
    qed
  next
    case False
    then have m2: "decimal m = decimal (m div 10) @ [digit (m mod 10)]"
      by (subst decimal.simps) simp
    show ?thesis
    proof (cases "n < 10")
      case True
      then have "decimal n = [digit n]" by (subst decimal.simps) simp
      with m2 "1.prems" have "decimal (m div 10) = []" by simp
      with decimal_nonempty show ?thesis by blast
    next
      case nF: False
      then have "decimal n = decimal (n div 10) @ [digit (n mod 10)]"
        by (subst decimal.simps) simp
      with m2 "1.prems" have e1: "decimal (m div 10) = decimal (n div 10)"
        and e2: "digit (m mod 10) = digit (n mod 10)" by simp_all
      from "1.IH" [OF False e1] have d: "m div 10 = n div 10" .
      have "m mod 10 = n mod 10" by (rule digit_inj [OF _ _ e2]) simp_all
      with d show ?thesis by (metis div_mult_mod_eq)
    qed
  qed
qed

lemma missing_node_message_inj: "missing_node_message i = missing_node_message j \<Longrightarrow> i = j"
proof -
  assume "missing_node_message i = missing_node_message j"
  then have "decimal (unat i) = decimal (unat j)"
    by (simp add: missing_node_message_def)
  then have "unat i = unat j" by (rule decimal_inj)
  then show "i = j" by (simp add: word_unat_eq_iff)
qed

subsection \<open>The three begin operations\<close>

lemma setNode_reset: "setNode i d a b n (reset s) = setNode i d a b n s"
  by (simp add: setNode_def reset_def)

lemma setWay_reset: "setWay w nv (reset s) = setWay w nv s"
  by (simp add: setWay_def reset_def)

lemma setRelation_reset: "setRelation r ow iw (reset s) = setRelation r ow iw s"
  by (simp add: setRelation_def reset_def)

text \<open>
  C6. Each of \<^verbatim>\<open>setNode\<close>, \<^verbatim>\<open>setWay\<close> and \<^verbatim>\<open>setRelation\<close> starts with
  \<^verbatim>\<open>reset\<close>: the context a begin call leaves has an empty output queue and the
  three validity flags cleared (for \<^verbatim>\<open>setWay\<close> whether it returns or throws, its
  node list being non-empty), and the call has the same result on the context and on the
  reset context, so nothing it installs depends on what \<^verbatim>\<open>reset\<close> clears.
\<close>

theorem begin_performs_reset:
  "cleared (setNode i d a b n s) \<and>
   cleared (setRelation r ow iw s) \<and>
   (nv \<noteq> [] \<longrightarrow> (\<exists>s'. context_after (setWay w nv s) = Some s' \<and> cleared s')) \<and>
   setNode i d a b n s = setNode i d a b n (reset s) \<and>
   setWay w nv s = setWay w nv (reset s) \<and>
   setRelation r ow iw s = setRelation r ow iw (reset s)"
proof -
  have 1: "cleared (setNode i d a b n s)"
    by (simp add: cleared_def setNode_def setLocation_def reset_def)
  have 2: "cleared (setRelation r ow iw s)"
    by (simp add: cleared_def setRelation_def reset_def)
  have 3: "nv \<noteq> [] \<longrightarrow> (\<exists>s'. context_after (setWay w nv s) = Some s' \<and> cleared s')"
    by (simp add: cleared_def setWay_def setLocation_def reset_def Let_def split: option.split)
  from 1 2 3 show ?thesis
    by (simp add: setNode_reset setWay_reset setRelation_reset)
qed

theorem begin_performs_reset_witness:
  "cleared (setNode (5 :: 64 word) \<lparr>keys_vals = [1, 2, 0]\<rparr> 0 3 \<lparr>latp = 8, lon = 9\<rparr> example_context) \<and>
   cleared (setRelation example_relation [11] [12] example_context) \<and>
   (\<exists>s'. context_after (setWay example_way [1, 2, 3] example_context) = Some s' \<and> cleared s') \<and>
   (\<exists>s'. context_after (setWay example_way [1, 2] example_context) = Some s' \<and> cleared s') \<and>
   \<not> cleared example_context"
proof -
  note a = begin_performs_reset [of "5 :: 64 word" "\<lparr>keys_vals = [1, 2, 0]\<rparr>" 0 3
      "\<lparr>latp = 8, lon = 9\<rparr>" example_context example_relation "[11]" "[12]" "[1, 2, 3]"
      example_way]
  note b = begin_performs_reset [of "5 :: 64 word" "\<lparr>keys_vals = [1, 2, 0]\<rparr>" 0 3
      "\<lparr>latp = 8, lon = 9\<rparr>" example_context example_relation "[11]" "[12]" "[1, 2]"
      example_way]
  have "\<not> cleared example_context"
    by (simp add: cleared_def example_context_def)
  with a b show ?thesis by blast
qed

text \<open>
  C9. \<^verbatim>\<open>setRelation\<close> leaves the four endpoint fields \<^verbatim>\<open>lon1\<close>,
  \<^verbatim>\<open>latp1\<close>, \<^verbatim>\<open>lon2\<close>, \<^verbatim>\<open>latp2\<close> as the previous primitive set them:
  after a node and then a relation, the endpoints are still the node's coordinates.
\<close>

theorem setRelation_keeps_endpoints:
  "lon1 (setRelation r ow iw s) = lon1 s \<and>
   latp1 (setRelation r ow iw s) = latp1 s \<and>
   lon2 (setRelation r ow iw s) = lon2 s \<and>
   latp2 (setRelation r ow iw s) = latp2 s \<and>
   lon1 (setRelation r ow iw (setNode i d a b n s)) = lon n \<and>
   latp1 (setRelation r ow iw (setNode i d a b n s)) = latp n \<and>
   lon2 (setRelation r ow iw (setNode i d a b n s)) = lon n \<and>
   latp2 (setRelation r ow iw (setNode i d a b n s)) = latp n"
  by (simp add: setRelation_def setNode_def setLocation_def reset_def)

text \<open>
  C1, as the code has it. For a non-empty node list, \<^verbatim>\<open>setWay\<close> looks up the first
  and the last referenced node only. When either is absent from the store, it throws
  \<^verbatim>\<open>std::out_of_range\<close> with the message \<open>Way <id> is missing a node\<close> for the
  id of the way (which the message determines); the context at the throw carries that id
  and its endpoint fields are untouched. When both are present it returns with the
  endpoints set to their coordinates, whatever the store holds for the nodes in between.
\<close>

theorem setWay_missing_endpoint:
  assumes "nv \<noteq> []"
  shows "(nodes (osmStore s) (hd nv) = None \<or> nodes (osmStore s) (last nv) = None \<longrightarrow>
           (\<exists>s'. setWay w nv s = Threw (out_of_range (missing_node_message (way_id w))) s' \<and>
                 osmID s' = way_id w \<and>
                 lon1 s' = lon1 s \<and> latp1 s' = latp1 s \<and> lon2 s' = lon2 s \<and> latp2 s' = latp2 s)) \<and>
         (\<forall>p q. nodes (osmStore s) (hd nv) = Some p \<and> nodes (osmStore s) (last nv) = Some q \<longrightarrow>
           (\<exists>s'. setWay w nv s = Returned () s' \<and>
                 lon1 s' = lon p \<and> latp1 s' = latp p \<and> lon2 s' = lon q \<and> latp2 s' = latp q)) \<and>
         (\<forall>w'. missing_node_message (way_id w') = missing_node_message (way_id w) \<longrightarrow>
           way_id w' = way_id w)"
proof (intro conjI)
  show "nodes (osmStore s) (hd nv) = None \<or> nodes (osmStore s) (last nv) = None \<longrightarrow>
         (\<exists>s'. setWay w nv s = Threw (out_of_range (missing_node_message (way_id w))) s' \<and>
               osmID s' = way_id w \<and>
               lon1 s' = lon1 s \<and> latp1 s' = latp1 s \<and> lon2 s' = lon2 s \<and> latp2 s' = latp2 s)"
    using assms
    by (auto simp: setWay_def setLocation_def reset_def missing_node_message_def Let_def
        split: option.splits)
  show "\<forall>p q. nodes (osmStore s) (hd nv) = Some p \<and> nodes (osmStore s) (last nv) = Some q \<longrightarrow>
         (\<exists>s'. setWay w nv s = Returned () s' \<and>
               lon1 s' = lon p \<and> latp1 s' = latp p \<and> lon2 s' = lon q \<and> latp2 s' = latp q)"
    using assms
    by (auto simp: setWay_def setLocation_def reset_def Let_def)
  show "\<forall>w'. missing_node_message (way_id w') = missing_node_message (way_id w) \<longrightarrow>
         way_id w' = way_id w"
    by (blast dest: missing_node_message_inj)
qed

theorem setWay_missing_endpoint_witness:
  "(\<exists>s'. setWay example_way [1, 2] example_context = Threw (out_of_range ''Way 42 is missing a node'') s' \<and>
         osmID s' = 42 \<and> lon1 s' = 5 \<and> latp1 s' = 6 \<and> lon2 s' = 5 \<and> latp2 s' = 6) \<and>
   (\<exists>s'. setWay example_way [1, 3] example_context = Returned () s' \<and>
         lon1 s' = 20 \<and> latp1 s' = 10 \<and> lon2 s' = 40 \<and> latp2 s' = 30)"
proof -
  have m: "missing_node_message (way_id example_way) = ''Way 42 is missing a node''"
    unfolding missing_node_message_def example_way_def by code_simp
  have a: "nodes (osmStore example_context) (hd [1, 2 :: 64 word]) = None \<or>
           nodes (osmStore example_context) (last [1, 2 :: 64 word]) = None"
    by (simp add: example_context_def example_store_def)
  have b: "nodes (osmStore example_context) (hd [1, 3 :: 64 word]) = Some \<lparr>latp = 10, lon = 20\<rparr> \<and>
           nodes (osmStore example_context) (last [1, 3 :: 64 word]) = Some \<lparr>latp = 30, lon = 40\<rparr>"
    by (simp add: example_context_def example_store_def)
  have c: "lon1 example_context = 5 \<and> latp1 example_context = 6 \<and> lon2 example_context = 5 \<and> latp2 example_context = 6 \<and> way_id example_way = 42"
    by (simp add: example_context_def example_way_def)
  have ne: "[1, 2 :: 64 word] \<noteq> []" "[1, 3 :: 64 word] \<noteq> []"
    by simp_all
  from setWay_missing_endpoint [OF ne(1), of example_context example_way, THEN conjunct1] a m c
  have 1: "\<exists>s'. setWay example_way [1, 2] example_context = Threw (out_of_range ''Way 42 is missing a node'') s' \<and>
         osmID s' = 42 \<and> lon1 s' = 5 \<and> latp1 s' = 6 \<and> lon2 s' = 5 \<and> latp2 s' = 6"
    by auto
  from setWay_missing_endpoint [OF ne(2), of example_context example_way,
      THEN conjunct2, THEN conjunct1] b
  have 2: "\<exists>s'. setWay example_way [1, 3] example_context = Returned () s' \<and>
         lon1 s' = 20 \<and> latp1 s' = 10 \<and> lon2 s' = 40 \<and> latp2 s' = 30"
    by simp
  from 1 2 show ?thesis by simp
qed

text \<open>
  C1 as stated fails: the way below references node 2, which the store does not hold,
  and \<^verbatim>\<open>setWay\<close> returns, since node 2 is neither the first nor the last
  reference.
\<close>

theorem setWay_interior_node_not_looked_up:
  "2 \<in> set [1, 2, 3 :: 64 word] \<and>
   nodes (osmStore example_context) 2 = None \<and>
   returned (setWay example_way [1, 2, 3] example_context)"
  by (simp add: setWay_def setLocation_def reset_def example_context_def example_store_def Let_def)

subsection \<open>Synthetic ids of relations\<close>

lemma setNode_newWayID:
  "newWayID (setNode i d a b n s) = newWayID s \<and> \<not> isRelation (setNode i d a b n s)"
  by (simp add: setNode_def setLocation_def reset_def)

lemma setWay_newWayID:
  "setWay w nv s = Returned u s' \<Longrightarrow> newWayID s' = newWayID s \<and> \<not> isRelation s'"
  "setWay w nv s = Threw e s' \<Longrightarrow> newWayID s' = newWayID s"
  by (auto simp: setWay_def setLocation_def reset_def Let_def split: if_splits option.splits)

lemma setRelation_newWayID:
  "newWayID (setRelation r ow iw s) = newWayID s - 1 \<and>
   osmID (setRelation r ow iw s) = ucast (newWayID s - 1) \<and>
   isRelation (setRelation r ow iw s)"
  by (simp add: setRelation_def reset_def)

lemma synthetic_ids_length: "length (synthetic_ids abort ps s) \<le> relation_count ps"
proof (induction ps arbitrary: s)
  case Nil
  show ?case by (simp add: synthetic_ids_def)
next
  case (Cons p ps)
  show ?case
  proof (cases p)
    case (NodePrimitive i d a b n)
    with Cons [of "setNode i d a b n s"] show ?thesis
      by (simp add: synthetic_ids_def setNode_newWayID Let_def)
  next
    case (WayPrimitive w nv)
    show ?thesis
    proof (cases "setWay w nv s")
      case (Returned u s')
      with WayPrimitive Cons [of s'] setWay_newWayID(1) [OF Returned] show ?thesis
        by (simp add: synthetic_ids_def)
    next
      case (Threw e s')
      with WayPrimitive Cons [of s'] show ?thesis
        by (cases abort) (simp_all add: synthetic_ids_def)
    next
      case Undefined
      with WayPrimitive show ?thesis by (simp add: synthetic_ids_def)
    qed
  next
    case (RelationPrimitive r ow iw)
    with Cons [of "setRelation r ow iw s"] show ?thesis
      by (simp add: synthetic_ids_def setRelation_newWayID Let_def)
  qed
qed

lemma synthetic_ids_eq:
  "synthetic_ids abort ps s =
     map (\<lambda>k. ucast (newWayID s - of_nat (Suc k))) [0..<length (synthetic_ids abort ps s)]"
proof (induction ps arbitrary: s)
  case Nil
  show ?case by (simp add: synthetic_ids_def)
next
  case (Cons p ps)
  show ?case
  proof (cases p)
    case (NodePrimitive i d a b n)
    with Cons [of "setNode i d a b n s"] show ?thesis
      by (simp add: synthetic_ids_def setNode_newWayID Let_def)
  next
    case (WayPrimitive w nv)
    show ?thesis
    proof (cases "setWay w nv s")
      case (Returned u s')
      with WayPrimitive Cons [of s'] setWay_newWayID(1) [OF Returned] show ?thesis
        by (simp add: synthetic_ids_def)
    next
      case (Threw e s')
      with WayPrimitive Cons [of s'] setWay_newWayID(2) [OF Threw] show ?thesis
        by (cases abort) (simp_all add: synthetic_ids_def)
    next
      case Undefined
      with WayPrimitive show ?thesis by (simp add: synthetic_ids_def)
    qed
  next
    case (RelationPrimitive r ow iw)
    let ?s' = "setRelation r ow iw s"
    have step: "synthetic_ids abort (p # ps) s = ucast (newWayID s - 1) # synthetic_ids abort ps ?s'"
      using RelationPrimitive by (simp add: synthetic_ids_def setRelation_newWayID Let_def)
    have ih: "synthetic_ids abort ps ?s' =
        map (\<lambda>k. ucast (newWayID s - 1 - of_nat (Suc k))) [0..<length (synthetic_ids abort ps ?s')]"
      using Cons [of ?s'] by (simp add: setRelation_newWayID)
    have len: "length (synthetic_ids abort (p # ps) s) = Suc (length (synthetic_ids abort ps ?s'))"
      using step by simp
    show ?thesis
      apply (subst len)
      apply (subst map_upt_Suc)
      apply (subst step)
      apply (subst ih)
      apply (simp add: algebra_simps)
      done
  qed
qed

lemma unat_ucast_64:
  fixes x :: "'w::len word"
  assumes "LENGTH('w) \<le> 64"
  shows "unat (ucast x :: 64 word) = unat x"
proof -
  have "unat x < 2 ^ LENGTH('w)" by simp
  also have "(2::nat) ^ LENGTH('w) \<le> 2 ^ 64"
    by (rule power_increasing [OF assms]) simp
  finally have "unat x < 2 ^ 64" .
  then show ?thesis
    by (simp add: unsigned_ucast_eq take_bit_nat_eq_self)
qed

lemma unat_counter:
  fixes M :: "'w::len word"
  assumes "LENGTH('w) \<le> 64" and "k \<le> unat M"
  shows "unat (ucast (M - of_nat k) :: 64 word) = unat M - k"
proof -
  have k: "unat (of_nat k :: 'w word) = k"
    by (rule le_unat_uoi [OF assms(2)])
  with assms(2) have "(of_nat k :: 'w word) \<le> M"
    by (simp add: word_le_nat_alt)
  then have "unat (M - of_nat k) = unat M - k"
    by (simp add: unat_sub k)
  with assms(1) show ?thesis
    by (simp add: unat_ucast_64)
qed

lemma synthetic_ids_nth:
  assumes "i < length (synthetic_ids abort ps s)"
  shows "synthetic_ids abort ps s ! i = ucast (newWayID s - of_nat (Suc i))"
proof -
  have "synthetic_ids abort ps s ! i =
      map (\<lambda>k. ucast (newWayID s - of_nat (Suc k))) [0..<length (synthetic_ids abort ps s)] ! i"
    using synthetic_ids_eq [of abort ps s] by simp
  with assms show ?thesis by simp
qed

text \<open>
  C2, as the code has it. Let the counter \<^verbatim>\<open>newWayID\<close> hold \<open>M\<close> when a run starts
  (\<^verbatim>\<open>MAX_WAY_ID\<close> in a new context), the type \<^verbatim>\<open>WayID\<close> being at most 64 bits
  wide. The k-th relation of the run gets the id \<open>M - k\<close>, computed in \<^verbatim>\<open>WayID\<close>.
  While the run has begun no more than \<open>M\<close> relations, these ids are strictly
  decreasing, and a way id supplied in the run that is smaller than \<open>M\<close> minus the
  number of relations is none of them.
\<close>

theorem synthetic_ids_decreasing:
  fixes s :: "('n::len word, 'w::len word) OSMObject"
  assumes "LENGTH('w) \<le> 64" and "relation_count ps \<le> unat (newWayID s)"
  shows "synthetic_ids abort ps s =
           map (\<lambda>k. ucast (newWayID s - of_nat (Suc k))) [0..<length (synthetic_ids abort ps s)] \<and>
         sorted_wrt (\<lambda>a b. b < a) (synthetic_ids abort ps s) \<and>
         (\<forall>w \<in> set (way_ids ps).
            unat w + relation_count ps < unat (newWayID s) \<longrightarrow>
            w \<notin> set (synthetic_ids abort ps s))"
proof (intro conjI)
  let ?ids = "synthetic_ids abort ps s"
  have len: "length ?ids \<le> unat (newWayID s)"
    using synthetic_ids_length [of abort ps s] assms(2) by simp
  have val: "unat (?ids ! i) = unat (newWayID s) - Suc i" if "i < length ?ids" for i
  proof -
    from that len have "Suc i \<le> unat (newWayID s)" by simp
    from unat_counter [OF assms(1) this] synthetic_ids_nth [OF that]
    show ?thesis by simp
  qed
  show "?ids = map (\<lambda>k. ucast (newWayID s - of_nat (Suc k))) [0..<length ?ids]"
    by (rule synthetic_ids_eq)
  show "sorted_wrt (\<lambda>a b. b < a) ?ids"
  proof -
    have "?ids ! j < ?ids ! i" if "i < j" "j < length ?ids" for i j
    proof -
      from that have i: "i < length ?ids" by simp
      from that len val [OF i] val [OF that(2)] show ?thesis
        by (simp add: word_less_nat_alt)
    qed
    then show ?thesis by (simp add: sorted_wrt_iff_nth_less)
  qed
  show "\<forall>w \<in> set (way_ids ps).
          unat w + relation_count ps < unat (newWayID s) \<longrightarrow> w \<notin> set ?ids"
  proof (intro ballI impI notI)
    fix w
    assume small: "unat w + relation_count ps < unat (newWayID s)" and "w \<in> set ?ids"
    then obtain i where i: "i < length ?ids" and w: "?ids ! i = w"
      by (auto simp: in_set_conv_nth)
    from val [OF i] w have "unat w = unat (newWayID s) - Suc i" by simp
    with small i synthetic_ids_length [of abort ps s] show False by simp
  qed
qed

lemma three_relations_ids:
  "synthetic_ids False three_relations example_context = [4294967294, 4294967293, 4294967292]"
  by (simp add: synthetic_ids_def three_relations_def setRelation_def setWay_def setNode_def
      setLocation_def reset_def Let_def example_context_def example_store_def example_way_def)

theorem synthetic_ids_decreasing_witness:
  "synthetic_ids False three_relations example_context = [4294967294, 4294967293, 4294967292] \<and>
   sorted_wrt (\<lambda>a b. b < a) (synthetic_ids False three_relations example_context) \<and>
   way_ids three_relations = [42] \<and>
   42 \<notin> set (synthetic_ids False three_relations example_context)"
proof -
  have a: "LENGTH(32) \<le> 64" by simp
  have b: "relation_count three_relations \<le> unat (newWayID example_context)"
    by (simp add: three_relations_def example_context_def)
  have c: "way_ids three_relations = [42]"
    by (simp add: three_relations_def example_way_def)
  have d: "unat (42 :: 64 word) + relation_count three_relations < unat (newWayID example_context)"
    by (simp add: three_relations_def example_context_def)
  note t = synthetic_ids_decreasing [OF a b, of False]
  from t have "sorted_wrt (\<lambda>a b. b < a) (synthetic_ids False three_relations example_context)"
    by blast
  moreover from t c d have "42 \<notin> set (synthetic_ids False three_relations example_context)"
    by simp
  ultimately show ?thesis using three_relations_ids c by simp
qed

lemma synthetic_ids_replicate_length:
  "length (synthetic_ids abort (replicate m (RelationPrimitive r ow iw)) s) = m"
proof (induction m arbitrary: s)
  case 0
  show ?case by (simp add: synthetic_ids_def)
next
  case (Suc m)
  from Suc [of "setRelation r ow iw s"] show ?case
    by (simp add: synthetic_ids_def setRelation_newWayID Let_def)
qed

lemma synthetic_ids_wrap:
  fixes s :: "('n::len word, 32 word) OSMObject"
  assumes seed: "newWayID s = 4294967295" and m: "m = 4294967294"
  shows "\<not> sorted_wrt (\<lambda>a b. b < a)
           (synthetic_ids abort (replicate (Suc (Suc m)) (RelationPrimitive r ow iw)) s)"
proof
  let ?ids = "synthetic_ids abort (replicate (Suc (Suc m)) (RelationPrimitive r ow iw)) s"
  assume "sorted_wrt (\<lambda>a b. b < a) ?ids"
  moreover have len: "length ?ids = Suc (Suc m)"
    by (rule synthetic_ids_replicate_length)
  ultimately have less: "?ids ! Suc m < ?ids ! m"
    by (simp add: sorted_wrt_iff_nth_less)
  have "?ids ! m = ucast (newWayID s - of_nat (Suc m))"
    by (rule synthetic_ids_nth) (use len in linarith)
  then have a: "?ids ! m = 0"
    by (simp add: seed m)
  have "?ids ! Suc m = ucast (newWayID s - of_nat (Suc (Suc m)))"
    by (rule synthetic_ids_nth) (use len in linarith)
  then have b: "?ids ! Suc m = 4294967295"
    by (simp add: seed m unsigned_minus_1_eq_mask mask_eq_exp_minus_1)
  from less a b show False by simp
qed

text \<open>
  C2 as stated fails twice. Nothing keeps a way id out of the range the counter runs
  through: after the way \<open>4294967294\<close> the first relation of a new 32-bit counter gets
  the id \<open>4294967294\<close> too. And the counter wraps: the ids of \<open>4294967296\<close> relations
  in sequence are not strictly decreasing, the last being \<open>4294967295\<close> after \<open>0\<close>.
\<close>

theorem synthetic_id_collides_with_way_id:
  "way_ids [WayPrimitive \<lparr>way_id = 4294967294, way_keys = [], way_vals = []\<rparr> [1 :: 64 word, 3],
            RelationPrimitive example_relation [] []] = [4294967294] \<and>
   synthetic_ids False
     [WayPrimitive \<lparr>way_id = 4294967294, way_keys = [], way_vals = []\<rparr> [1, 3],
      RelationPrimitive example_relation [] []] example_context = [4294967294] \<and>
   \<not> sorted_wrt (\<lambda>a b. b < a)
       (synthetic_ids False
          (replicate (Suc (Suc 4294967294)) (RelationPrimitive example_relation [] []))
          example_context)"
proof (intro conjI)
  show "way_ids [WayPrimitive \<lparr>way_id = 4294967294, way_keys = [], way_vals = []\<rparr> [1 :: 64 word, 3],
            RelationPrimitive example_relation [] []] = [4294967294]"
    by simp
  show "synthetic_ids False
     [WayPrimitive \<lparr>way_id = 4294967294, way_keys = [], way_vals = []\<rparr> [1, 3],
      RelationPrimitive example_relation [] []] example_context = [4294967294]"
    by (simp add: synthetic_ids_def setRelation_def setWay_def
      setLocation_def reset_def Let_def example_context_def example_store_def)
  have "newWayID example_context = 4294967295"
    by (simp add: example_context_def)
  then show "\<not> sorted_wrt (\<lambda>a b. b < a)
       (synthetic_ids False
          (replicate (Suc (Suc 4294967294)) (RelationPrimitive example_relation [] []))
          example_context)"
    by (rule synthetic_ids_wrap) (rule refl)
qed

section \<open>Properties of the functions modelled from the spec\<close>

subsection \<open>Tag lookup\<close>

lemma scan_tags_miss:
  "\<forall>i \<in> set ns. i < length ks \<and> ks ! i \<noteq> p \<Longrightarrow> scan_tags ks vs tbl p ns = Some ''''"
  by (induction ns) simp_all

lemma scan_tags_hit:
  assumes "\<forall>j \<in> set pre. j < length ks \<and> ks ! j \<noteq> p"
    and "i < length ks" and "ks ! i = p" and "i < length vs"
  shows "scan_tags ks vs tbl p (pre @ i # post) = stringAt tbl (vs ! i)"
  using assms by (induction pre) simp_all

text \<open>
  C5. For a way or relation whose key and value arrays hold at least tag-length entries,
  the value ids indexing the string table: \<open>Find key\<close> is the empty string when the
  key has no position in the string table, and when no key id within the tag length is
  the position of the key; otherwise it is the string-table entry at the value id paired
  with the first key id that is the position of the key.
\<close>

theorem Find_tabular:
  assumes way: "isWay s"
    and keys: "unat (tagLength s) \<le> length (keysPtr s)"
    and vals: "unat (tagLength s) \<le> length (valsPtr s)"
    and tbl: "\<forall>i < unat (tagLength s). unat (valsPtr s ! i) < length (stringTable s)"
  shows "(findStringPosition key s = None \<longrightarrow> Find key s = Some '''') \<and>
         (\<forall>p. findStringPosition key s = Some p \<and>
               (\<forall>i < unat (tagLength s). keysPtr s ! i \<noteq> p) \<longrightarrow>
               Find key s = Some '''') \<and>
         (\<forall>p i. findStringPosition key s = Some p \<and>
                 i < unat (tagLength s) \<and> keysPtr s ! i = p \<and>
                 (\<forall>j < i. keysPtr s ! j \<noteq> p) \<longrightarrow>
                 Find key s = Some (stringTable s ! unat (valsPtr s ! i)))"
proof (intro conjI allI impI)
  assume "findStringPosition key s = None"
  with way show "Find key s = Some ''''"
    by (simp add: Find_def)
next
  fix p
  assume a: "findStringPosition key s = Some p \<and> (\<forall>i < unat (tagLength s). keysPtr s ! i \<noteq> p)"
  with keys have "\<forall>i \<in> set [0..<unat (tagLength s)]. i < length (keysPtr s) \<and> keysPtr s ! i \<noteq> p"
    by auto
  from scan_tags_miss [OF this] a way show "Find key s = Some ''''"
    by (simp add: Find_def)
next
  fix p i
  assume a: "findStringPosition key s = Some p \<and> i < unat (tagLength s) \<and> keysPtr s ! i = p \<and>
             (\<forall>j < i. keysPtr s ! j \<noteq> p)"
  then have i: "i < unat (tagLength s)" by simp
  have split: "[0..<unat (tagLength s)] = [0..<i] @ i # [Suc i..<unat (tagLength s)]"
  proof -
    have "[0..<i + (unat (tagLength s) - i)] = [0..<i] @ [i..<i + (unat (tagLength s) - i)]"
      by (rule upt_add_eq_append) simp
    with i show ?thesis by (simp add: upt_conv_Cons)
  qed
  have pre: "\<forall>j \<in> set [0..<i]. j < length (keysPtr s) \<and> keysPtr s ! j \<noteq> p"
    using a keys by auto
  have "scan_tags (keysPtr s) (valsPtr s) (stringTable s) p [0..<unat (tagLength s)] =
        stringAt (stringTable s) (valsPtr s ! i)"
    unfolding split
    by (rule scan_tags_hit [OF pre]) (use a keys vals in auto)
  with a way tbl i show "Find key s = Some (stringTable s ! unat (valsPtr s ! i))"
    by (simp add: Find_def stringAt_def)
qed

lemma example_positions:
  "findStringPosition ''highway'' example_tagged = Some 1"
  "findStringPosition ''name'' example_tagged = Some 3"
  "findStringPosition ''primary'' example_tagged = Some 2"
  "findStringPosition ''surface'' example_tagged = None"
  unfolding findStringPosition_def example_tagged_def example_context_def
  by code_simp+

lemma example_tagged_fields:
  "isWay example_tagged"
  "keysPtr example_tagged = [1, 3, 1]"
  "valsPtr example_tagged = [2, 4, 0]"
  "unat (tagLength example_tagged) = 3"
  "stringTable example_tagged = ['''', ''highway'', ''primary'', ''name'', ''High Street'']"
  by (simp_all add: example_tagged_def example_context_def)

theorem Find_tabular_witness:
  "Find ''highway'' example_tagged = Some ''primary'' \<and>
   Find ''name'' example_tagged = Some ''High Street'' \<and>
   Find ''primary'' example_tagged = Some '''' \<and>
   Find ''surface'' example_tagged = Some ''''"
proof -
  have keys: "unat (tagLength example_tagged) \<le> length (keysPtr example_tagged)"
    and vals: "unat (tagLength example_tagged) \<le> length (valsPtr example_tagged)"
    by (simp_all add: example_tagged_fields)
  have tbl: "\<forall>i < unat (tagLength example_tagged).
      unat (valsPtr example_tagged ! i) < length (stringTable example_tagged)"
    by (simp add: example_tagged_fields numeral_3_eq_3 less_Suc_eq)
  note t = Find_tabular [OF example_tagged_fields(1) keys vals tbl]
  have "Find ''highway'' example_tagged =
      Some (stringTable example_tagged ! unat (valsPtr example_tagged ! 0))"
    by (rule t [THEN conjunct2, THEN conjunct2, rule_format, of _ 1 0])
      (simp add: example_positions example_tagged_fields)
  then have 1: "Find ''highway'' example_tagged = Some ''primary''"
    by (simp add: example_tagged_fields)
  have "Find ''name'' example_tagged =
      Some (stringTable example_tagged ! unat (valsPtr example_tagged ! 1))"
    by (rule t [THEN conjunct2, THEN conjunct2, rule_format, of _ 3 1])
      (simp add: example_positions example_tagged_fields)
  then have 2: "Find ''name'' example_tagged = Some ''High Street''"
    by (simp add: example_tagged_fields)
  have 3: "Find ''primary'' example_tagged = Some ''''"
    by (rule t [THEN conjunct2, THEN conjunct1, rule_format, of _ 2])
      (simp add: example_positions example_tagged_fields numeral_3_eq_3 less_Suc_eq)
  have 4: "Find ''surface'' example_tagged = Some ''''"
    by (rule t [THEN conjunct1, rule_format]) (simp add: example_positions)
  from 1 2 3 4 show ?thesis by simp
qed

subsection \<open>Lazy geometry\<close>

lemma linestring_memoized:
  "linestring s = Returned g s' \<Longrightarrow> linestring s' = Returned g s'"
  by (auto simp: linestring_def split: if_splits option.splits)

lemma polygon_memoized:
  "polygon s = Returned g s' \<Longrightarrow> polygon s' = Returned g s'"
  by (auto simp: polygon_def split: if_splits option.splits)

lemma multiPolygon_memoized:
  "multiPolygon s = Returned g s' \<Longrightarrow> multiPolygon s' = Returned g s'"
  by (auto simp: multiPolygon_def split: if_splits option.splits)

lemma linestring_frame:
  "linestring s = Returned g s' \<Longrightarrow> osmStore s' = osmStore s"
  by (auto simp: linestring_def split: if_splits option.splits)

lemma setWay_frame:
  "setWay w nv s = Returned u s' \<Longrightarrow>
     osmStore s' = osmStore s \<and> nodeVec s' = nv \<and> \<not> linestringInited s' \<and>
     \<not> polygonInited s'"
  by (auto simp: setWay_def setLocation_def reset_def Let_def split: if_splits option.splits)

lemma geometry_first_call:
  "result_of (linestring (reset s)) = resolve_nodes (osmStore s) (nodeVec s) \<and>
   result_of (polygon (reset s)) = build_polygon (osmStore s) (nodeVec s) \<and>
   result_of (multiPolygon (reset s)) =
     build_multiPolygon (osmStore s) (outerWayVec s) (innerWayVec s) \<and>
   (\<forall>s'. setWay w nv s = Returned () s' \<longrightarrow>
      result_of (linestring s') = resolve_nodes (osmStore s) nv \<and>
      result_of (polygon s') = build_polygon (osmStore s) nv) \<and>
   result_of (multiPolygon (setRelation r ow iw s)) = build_multiPolygon (osmStore s) ow iw \<and>
   (\<forall>sA gA sA' sB.
      setWay wA nvA s = Returned () sA \<and> linestring sA = Returned gA sA' \<and>
      setWay wB nvB sA' = Returned () sB \<longrightarrow>
      linestringInited sA' \<and> linestringCache sA' = gA \<and>
      result_of (linestring sB) = resolve_nodes (osmStore s) nvB)"
proof (intro conjI allI impI)
  show "result_of (linestring (reset s)) = resolve_nodes (osmStore s) (nodeVec s)"
    by (simp add: linestring_def reset_def split: option.split)
  show "result_of (polygon (reset s)) = build_polygon (osmStore s) (nodeVec s)"
    by (simp add: polygon_def reset_def split: option.split)
  show "result_of (multiPolygon (reset s)) =
      build_multiPolygon (osmStore s) (outerWayVec s) (innerWayVec s)"
    by (simp add: multiPolygon_def reset_def split: option.split)
  show "result_of (multiPolygon (setRelation r ow iw s)) = build_multiPolygon (osmStore s) ow iw"
    by (simp add: multiPolygon_def setRelation_def reset_def Let_def split: option.split)
next
  fix s'
  assume r: "setWay w nv s = Returned () s'"
  from setWay_frame [OF r]
  show "result_of (linestring s') = resolve_nodes (osmStore s) nv"
    by (simp add: linestring_def split: option.split)
  from setWay_frame [OF r]
  show "result_of (polygon s') = build_polygon (osmStore s) nv"
    by (simp add: polygon_def split: option.split)
next
  fix sA gA sA' sB
  assume h: "setWay wA nvA s = Returned () sA \<and> linestring sA = Returned gA sA' \<and>
      setWay wB nvB sA' = Returned () sB"
  then have a: "setWay wA nvA s = Returned () sA" and l: "linestring sA = Returned gA sA'"
    and b: "setWay wB nvB sA' = Returned () sB" by simp_all
  from setWay_frame [OF a] l show "linestringInited sA'"
    by (auto simp: linestring_def split: option.splits)
  from setWay_frame [OF a] l show "linestringCache sA' = gA"
    by (auto simp: linestring_def split: option.splits)
  from setWay_frame [OF a] linestring_frame [OF l] setWay_frame [OF b]
  show "result_of (linestring sB) = resolve_nodes (osmStore s) nvB"
    by (simp add: linestring_def split: option.split)
qed

lemma setWay_returns:
  assumes "nv \<noteq> []" and "nodes (osmStore s) (hd nv) = Some p"
    and "nodes (osmStore s) (last nv) = Some q"
  shows "\<exists>s'. setWay w nv s = Returned () s'"
  using assms by (simp add: setWay_def reset_def Let_def)

lemma example_first_call:
  "result_of (linestring example_context) = Some [\<lparr>latp = 1, lon = 2\<rparr>] \<and>
   result_of (linestring (reset example_context)) = Some [] \<and>
   (\<exists>sA sA' sB.
      setWay example_way [1, 3] example_context = Returned () sA \<and>
      linestring sA = Returned [\<lparr>latp = 10, lon = 20\<rparr>, \<lparr>latp = 30, lon = 40\<rparr>] sA' \<and>
      setWay example_way [3] sA' = Returned () sB \<and>
      linestringInited sA' \<and>
      linestringCache sA' = [\<lparr>latp = 10, lon = 20\<rparr>, \<lparr>latp = 30, lon = 40\<rparr>] \<and>
      result_of (linestring sB) = Some [\<lparr>latp = 30, lon = 40\<rparr>])"
proof -
  have st: "osmStore example_context = example_store"
    by (simp add: example_context_def)
  have n1: "nodes example_store 1 = Some \<lparr>latp = 10, lon = 20\<rparr>"
    and n3: "nodes example_store 3 = Some \<lparr>latp = 30, lon = 40\<rparr>"
    by (simp_all add: example_store_def)
  have 1: "result_of (linestring example_context) = Some [\<lparr>latp = 1, lon = 2\<rparr>]"
    by (simp add: linestring_def example_context_def)
  have 2: "result_of (linestring (reset example_context)) = Some []"
    using geometry_first_call [of example_context, THEN conjunct1]
    by (simp add: example_context_def)
  obtain sA where a: "setWay example_way [1, 3] example_context = Returned () sA"
    using setWay_returns [of "[1, 3]" example_context _ _ example_way] st n1 n3 by auto
  note fa = setWay_frame [OF a]
  let ?gA = "[\<lparr>latp = 10, lon = 20\<rparr>, \<lparr>latp = 30, lon = 40\<rparr>]"
  have "resolve_nodes (osmStore sA) (nodeVec sA) = Some ?gA"
    using fa st n1 n3 by simp
  with fa obtain sA' where l: "linestring sA = Returned ?gA sA'"
    by (simp add: linestring_def)
  from linestring_frame [OF l] fa st have st': "osmStore sA' = example_store" by simp
  obtain sB where b: "setWay example_way [3] sA' = Returned () sB"
    using setWay_returns [of "[3]" sA' _ _ example_way] st' n3 by auto
  from geometry_first_call [where s = example_context and wA = example_way
        and nvA = "[1, 3]" and wB = example_way and nvB = "[3]",
      THEN conjunct2, THEN conjunct2, THEN conjunct2, THEN conjunct2, THEN conjunct2,
      rule_format, of sA ?gA sA' sB] a l b
  have "linestringInited sA' \<and> linestringCache sA' = ?gA \<and>
      result_of (linestring sB) = resolve_nodes (osmStore example_context) [3]"
    by simp
  with st n3 have "linestringInited sA' \<and> linestringCache sA' = ?gA \<and>
      result_of (linestring sB) = Some [\<lparr>latp = 30, lon = 40\<rparr>]"
    by simp
  with a l b have "\<exists>sA sA' sB.
      setWay example_way [1, 3] example_context = Returned () sA \<and>
      linestring sA = Returned ?gA sA' \<and>
      setWay example_way [3] sA' = Returned () sB \<and>
      linestringInited sA' \<and>
      linestringCache sA' = ?gA \<and>
      result_of (linestring sB) = Some [\<lparr>latp = 30, lon = 40\<rparr>]"
    by blast
  with 1 2 show ?thesis by simp
qed

lemma built_same_references: "same_references s' s \<Longrightarrow> built a s' = built a s"
  by (simp add: built_def same_references_def)

lemma access_valid:
  assumes "caches_valid s"
  shows "fst (access a s) = built a s \<and> caches_valid (snd (access a s)) \<and>
         same_references (snd (access a s)) s"
proof (cases a)
  case AsLine
  with assms show ?thesis
    by (auto simp: caches_valid_def same_references_def built_def linestring_def
        split: option.splits)
next
  case AsPolygon
  with assms show ?thesis
    by (auto simp: caches_valid_def same_references_def built_def polygon_def
        split: option.splits)
next
  case AsMultiPolygon
  with assms show ?thesis
    by (auto simp: caches_valid_def same_references_def built_def multiPolygon_def
        split: option.splits)
qed

lemma calls_valid:
  assumes "caches_valid s"
  shows "fst (calls as s) = map (\<lambda>a. built a s) as \<and> caches_valid (snd (calls as s)) \<and>
         same_references (snd (calls as s)) s"
  using assms
proof (induction as arbitrary: s)
  case Nil
  then show ?case by (simp add: same_references_def)
next
  case (Cons a as)
  obtain g s' where a: "access a s = (g, s')" by (cases "access a s")
  obtain gs s'' where r: "calls as s' = (gs, s'')" by (cases "calls as s'")
  from access_valid [OF Cons.prems, of a] a
  have g: "g = built a s" and v: "caches_valid s'" and f: "same_references s' s"
    by simp_all
  from Cons.IH [OF v] r
  have gs: "gs = map (\<lambda>a. built a s') as" and v': "caches_valid s''"
    and f': "same_references s'' s'"
    by simp_all
  from f have "map (\<lambda>a. built a s') as = map (\<lambda>a. built a s) as"
    by (simp add: built_same_references)
  with g gs v' f f' a r show ?case
    by (simp add: same_references_def)
qed

lemma reset_valid: "caches_valid (reset s) \<and> same_references (reset s) s"
  by (simp add: caches_valid_def same_references_def reset_def)

lemma setWay_valid:
  "setWay w nv s = Returned u s' \<Longrightarrow>
     caches_valid s' \<and> osmStore s' = osmStore s \<and> nodeVec s' = nv \<and>
     outerWayVec s' = outerWayVec s \<and> innerWayVec s' = innerWayVec s"
  by (auto simp: caches_valid_def setWay_def setLocation_def reset_def Let_def
      split: if_splits option.splits)

lemma setRelation_valid:
  "caches_valid (setRelation r ow iw s) \<and>
   osmStore (setRelation r ow iw s) = osmStore s \<and>
   nodeVec (setRelation r ow iw s) = nodeVec s \<and>
   outerWayVec (setRelation r ow iw s) = ow \<and>
   innerWayVec (setRelation r ow iw s) = iw"
  by (simp add: caches_valid_def setRelation_def reset_def Let_def)

lemma setNode_valid:
  "caches_valid (setNode i d x y n s) \<and> same_references (setNode i d x y n s) s"
  by (simp add: caches_valid_def same_references_def setNode_def setLocation_def reset_def Let_def)

lemma geometry_lifetime:
  "caches_valid (reset s) \<and>
   (caches_valid s \<longrightarrow>
      fst (calls as s) = map (\<lambda>a. built a s) as \<and> caches_valid (snd (calls as s))) \<and>
   fst (calls as (reset s)) = map (\<lambda>a. built a s) as \<and>
   (\<forall>s'. setWay w nv s = Returned () s' \<longrightarrow>
      fst (calls as s') =
        map (\<lambda>a. build a (osmStore s) nv (outerWayVec s) (innerWayVec s)) as) \<and>
   fst (calls as (setRelation r ow iw s)) =
     map (\<lambda>a. build a (osmStore s) (nodeVec s) ow iw) as \<and>
   fst (calls as (setNode i d x y n s)) = map (\<lambda>a. built a s) as"
proof (intro conjI allI impI)
  show "caches_valid (reset s)"
    by (simp add: reset_valid)
  show "fst (calls as (reset s)) = map (\<lambda>a. built a s) as"
    using calls_valid [of "reset s" as] reset_valid [of s]
    by (simp add: built_same_references)
  show "fst (calls as (setRelation r ow iw s)) =
      map (\<lambda>a. build a (osmStore s) (nodeVec s) ow iw) as"
    using calls_valid [of "setRelation r ow iw s" as] setRelation_valid [of r ow iw s]
    by (simp add: built_def)
  show "fst (calls as (setNode i d x y n s)) = map (\<lambda>a. built a s) as"
    using calls_valid [of "setNode i d x y n s" as] setNode_valid [of i d x y n s]
    by (simp add: built_same_references)
next
  assume "caches_valid s"
  from calls_valid [OF this, of as]
  show "fst (calls as s) = map (\<lambda>a. built a s) as" and "caches_valid (snd (calls as s))"
    by simp_all
next
  fix s'
  assume "setWay w nv s = Returned () s'"
  from setWay_valid [OF this] calls_valid [of s' as]
  show "fst (calls as s') =
      map (\<lambda>a. build a (osmStore s) nv (outerWayVec s) (innerWayVec s)) as"
    by (simp add: built_def)
qed

text \<open>
  C3. Memoized geometry never outlives a feature. \<^verbatim>\<open>reset\<close> makes the caches
  valid, and every accessor call keeps them valid, so in a context with valid caches
  every call of every sequence of accessor calls returns what its builder gives for the
  current references and the store, never geometry memoized for other references. In
  particular, whatever the caches held before: after \<^verbatim>\<open>reset\<close> every call returns
  the geometry built from the references of the context; after \<^verbatim>\<open>setWay\<close> from
  the node list of the new way; after \<^verbatim>\<open>setRelation\<close> from the way lists of the
  new relation; after \<^verbatim>\<open>setNode\<close> from the references the context holds. The
  first call after \<^verbatim>\<open>reset\<close> or a begin operation is the special case of the first
  five conjuncts; the sixth is the round trip of a line memoized for way A and a line
  built for way B.
\<close>

theorem geometry_rebuilt_after_reset:
  "result_of (linestring (reset s)) = resolve_nodes (osmStore s) (nodeVec s) \<and>
   result_of (polygon (reset s)) = build_polygon (osmStore s) (nodeVec s) \<and>
   result_of (multiPolygon (reset s)) =
     build_multiPolygon (osmStore s) (outerWayVec s) (innerWayVec s) \<and>
   (\<forall>s'. setWay w nv s = Returned () s' \<longrightarrow>
      result_of (linestring s') = resolve_nodes (osmStore s) nv \<and>
      result_of (polygon s') = build_polygon (osmStore s) nv) \<and>
   result_of (multiPolygon (setRelation r ow iw s)) = build_multiPolygon (osmStore s) ow iw \<and>
   (\<forall>sA gA sA' sB.
      setWay wA nvA s = Returned () sA \<and> linestring sA = Returned gA sA' \<and>
      setWay wB nvB sA' = Returned () sB \<longrightarrow>
      linestringInited sA' \<and> linestringCache sA' = gA \<and>
      result_of (linestring sB) = resolve_nodes (osmStore s) nvB) \<and>
   caches_valid (reset s) \<and>
   (caches_valid s \<longrightarrow>
      fst (calls as s) = map (\<lambda>a. built a s) as \<and> caches_valid (snd (calls as s))) \<and>
   fst (calls as (reset s)) = map (\<lambda>a. built a s) as \<and>
   (\<forall>s'. setWay w nv s = Returned () s' \<longrightarrow>
      fst (calls as s') =
        map (\<lambda>a. build a (osmStore s) nv (outerWayVec s) (innerWayVec s)) as) \<and>
   fst (calls as (setRelation r ow iw s)) =
     map (\<lambda>a. build a (osmStore s) (nodeVec s) ow iw) as \<and>
   fst (calls as (setNode i d x y n s)) = map (\<lambda>a. built a s) as"
proof -
  note a = geometry_first_call [where s = s and w = w and nv = nv and r = r
      and ow = ow and iw = iw and wA = wA and nvA = nvA and wB = wB and nvB = nvB]
  note b = geometry_lifetime [where s = s and as = as and w = w and nv = nv and r = r
      and ow = ow and iw = iw and i = i and d = d and x = x and y = y and n = n]
  from conjI [OF a b] show ?thesis
    unfolding conj_assoc .
qed

lemma example_geometry:
  "resolve_nodes example_store [1, 3] =
     Some [\<lparr>latp = 10, lon = 20\<rparr>, \<lparr>latp = 30, lon = 40\<rparr>]"
  "resolve_nodes example_store [3] = Some [\<lparr>latp = 30, lon = 40\<rparr>]"
  by (simp_all add: example_store_def)

theorem geometry_rebuilt_after_reset_witness:
  "\<exists>sA sB.
     setWay example_way [1, 3] example_context = Returned () sA \<and>
     fst (calls [AsLine, AsPolygon, AsLine] sA) =
       [Some (GeomLinestring [\<lparr>latp = 10, lon = 20\<rparr>, \<lparr>latp = 30, lon = 40\<rparr>]),
        Some (GeomPolygon \<lparr>outer = [\<lparr>latp = 10, lon = 20\<rparr>, \<lparr>latp = 30, lon = 40\<rparr>], inners = []\<rparr>),
        Some (GeomLinestring [\<lparr>latp = 10, lon = 20\<rparr>, \<lparr>latp = 30, lon = 40\<rparr>])] \<and>
     linestringInited (snd (calls [AsLine, AsPolygon, AsLine] sA)) \<and>
     polygonInited (snd (calls [AsLine, AsPolygon, AsLine] sA)) \<and>
     polygonCache (snd (calls [AsLine, AsPolygon, AsLine] sA)) =
       \<lparr>outer = [\<lparr>latp = 10, lon = 20\<rparr>, \<lparr>latp = 30, lon = 40\<rparr>], inners = []\<rparr> \<and>
     setWay example_way [3] (snd (calls [AsLine, AsPolygon, AsLine] sA)) = Returned () sB \<and>
     fst (calls [AsPolygon, AsLine] sB) =
       [Some (GeomPolygon \<lparr>outer = [\<lparr>latp = 30, lon = 40\<rparr>], inners = []\<rparr>),
        Some (GeomLinestring [\<lparr>latp = 30, lon = 40\<rparr>])]"
proof -
  let ?gA = "[\<lparr>latp = 10, lon = 20\<rparr>, \<lparr>latp = 30, lon = 40\<rparr>]"
  let ?as = "[AsLine, AsPolygon, AsLine]"
  have st: "osmStore example_context = example_store"
    by (simp add: example_context_def)
  have n1: "nodes example_store 1 = Some \<lparr>latp = 10, lon = 20\<rparr>"
    and n3: "nodes example_store 3 = Some \<lparr>latp = 30, lon = 40\<rparr>"
    by (simp_all add: example_store_def)
  obtain sA where a: "setWay example_way [1, 3] example_context = Returned () sA"
    using setWay_returns [of "[1, 3]" example_context _ _ example_way] st n1 n3 by auto
  note fa = setWay_frame [OF a]
  from geometry_rebuilt_after_reset [where s = example_context and w = example_way
      and nv = "[1, 3]" and as = ?as] a
  have "fst (calls ?as sA) =
      map (\<lambda>a. build a (osmStore example_context) [1, 3] (outerWayVec example_context)
        (innerWayVec example_context)) ?as"
    by blast
  also have "\<dots> =
      [Some (GeomLinestring ?gA), Some (GeomPolygon \<lparr>outer = ?gA, inners = []\<rparr>),
       Some (GeomLinestring ?gA)]"
    by (simp add: st n1 n3 build_polygon_def)
  finally have 1: "fst (calls ?as sA) =
      [Some (GeomLinestring ?gA), Some (GeomPolygon \<lparr>outer = ?gA, inners = []\<rparr>),
       Some (GeomLinestring ?gA)]" .
  have 2: "linestringInited (snd (calls ?as sA)) \<and> polygonInited (snd (calls ?as sA)) \<and>
      polygonCache (snd (calls ?as sA)) = \<lparr>outer = ?gA, inners = []\<rparr> \<and>
      osmStore (snd (calls ?as sA)) = example_store"
    using fa by (simp add: linestring_def polygon_def build_polygon_def st n1 n3)
  then have o2: "osmStore (snd (calls ?as sA)) = example_store" by blast
  obtain sB where b: "setWay example_way [3] (snd (calls ?as sA)) = Returned () sB"
    using setWay_returns [of "[3]" "snd (calls ?as sA)" _ _ example_way] 2 n3 by auto
  from geometry_rebuilt_after_reset [where s = "snd (calls ?as sA)" and w = example_way
      and nv = "[3]" and as = "[AsPolygon, AsLine]"] b
  have "fst (calls [AsPolygon, AsLine] sB) =
      map (\<lambda>a. build a (osmStore (snd (calls ?as sA))) [3]
        (outerWayVec (snd (calls ?as sA))) (innerWayVec (snd (calls ?as sA))))
        [AsPolygon, AsLine]"
    by blast
  also have "\<dots> =
      [Some (GeomPolygon \<lparr>outer = [\<lparr>latp = 30, lon = 40\<rparr>], inners = []\<rparr>),
       Some (GeomLinestring [\<lparr>latp = 30, lon = 40\<rparr>])]"
    unfolding o2 by (simp add: n3 build_polygon_def)
  finally have 3: "fst (calls [AsPolygon, AsLine] sB) =
      [Some (GeomPolygon \<lparr>outer = [\<lparr>latp = 30, lon = 40\<rparr>], inners = []\<rparr>),
       Some (GeomLinestring [\<lparr>latp = 30, lon = 40\<rparr>])]" .
  from a 1 2 b 3 show ?thesis by blast
qed

subsection \<open>Spatial queries\<close>

text \<open>
  C4. While the current feature is a relation, \<^verbatim>\<open>FindIntersecting\<close> returns no
  name and \<^verbatim>\<open>Intersects\<close> is false, for every layer name, every exact test and
  every content of the indices; so it is after every \<^verbatim>\<open>setRelation\<close>.
\<close>

theorem relation_never_intersects:
  "(isRelation s \<longrightarrow> FindIntersecting exact layerName s = [] \<and> \<not> Intersects exact layerName s) \<and>
   FindIntersecting exact layerName (setRelation r ow iw s) = [] \<and>
   \<not> Intersects exact layerName (setRelation r ow iw s)"
  by (simp add: FindIntersecting_def Intersects_def findIntersectingGeometries_def
      namesOfGeometries_def setRelation_def reset_def)

lemma example_node_intersects:
  "FindIntersecting (\<lambda>g p q. True) ''parks''
     (setNode 1 \<lparr>keys_vals = []\<rparr> 0 0 \<lparr>latp = 6, lon = 5\<rparr> example_indexed) = [''Central Park'']"
  unfolding FindIntersecting_def findIntersectingGeometries_def namesOfGeometries_def
    verifyIntersectResults_def query_def boxes_overlap_def box_of_def setNode_def
    setLocation_def reset_def example_indexed_def example_context_def Let_def
  by code_simp

theorem relation_never_intersects_witness:
  "FindIntersecting (\<lambda>g p q. True) ''parks''
     (setNode 1 \<lparr>keys_vals = []\<rparr> 0 0 \<lparr>latp = 6, lon = 5\<rparr> example_indexed) = [''Central Park''] \<and>
   isRelation (setRelation example_relation [] [] example_indexed) \<and>
   FindIntersecting (\<lambda>g p q. True) ''parks''
     (setRelation example_relation [] [] example_indexed) = [] \<and>
   \<not> Intersects (\<lambda>g p q. True) ''parks'' (setRelation example_relation [] [] example_indexed)"
proof -
  have rel: "isRelation (setRelation example_relation [] [] example_indexed)"
    by (simp add: setRelation_def Let_def)
  from relation_never_intersects [of "setRelation example_relation [] [] example_indexed"
      "\<lambda>g p q. True" "''parks''", THEN conjunct1, rule_format, OF rel]
    rel example_node_intersects
  show ?thesis by simp
qed

subsection \<open>Layer metadata\<close>

lemma layer_fields_members:
  "distinct (map fst (members (layer_fields l))) \<and>
   (\<forall>k. member k (layer_fields l) = map_option JNumber (RBT.lookup (attributeMap l) k))"
proof
  have "fst \<circ> (\<lambda>(k :: string, ty). (k, JNumber ty)) = fst"
    by (simp add: fun_eq_iff case_prod_unfold)
  then show "distinct (map fst (members (layer_fields l)))"
    by (simp add: layer_fields_def RBT.distinct_entries)
  show "\<forall>k. member k (layer_fields l) = map_option JNumber (RBT.lookup (attributeMap l) k)"
    by (simp add: member_def layer_fields_def map_of_map)
qed

text \<open>
  C7. The document is an object whose only member is the array \<open>vector_layers\<close>. The
  array has one entry for each layer of the registry, in the order of the registry. The
  entry of a layer has exactly the keys \<open>id\<close>, \<open>minzoom\<close>, \<open>maxzoom\<close> and
  \<open>fields\<close>, holding the name and the zoom range of the layer, and \<open>fields\<close> is an
  object without repeated keys that maps a key to a type tag exactly when the attribute
  map of the layer does.
\<close>

theorem serialiseLayerJSON_document:
  "\<exists>entries.
     serialiseLayerJSON s = JObject [(''vector_layers'', JArray entries)] \<and>
     length entries = length (layers s) \<and>
     (\<forall>i < length (layers s).
        map fst (members (entries ! i)) = [''id'', ''minzoom'', ''maxzoom'', ''fields''] \<and>
        member ''id'' (entries ! i) = Some (JString (name (layers s ! i))) \<and>
        member ''minzoom'' (entries ! i) = Some (JNumber (minzoom (layers s ! i))) \<and>
        member ''maxzoom'' (entries ! i) = Some (JNumber (maxzoom (layers s ! i))) \<and>
        (\<exists>fields.
           member ''fields'' (entries ! i) = Some (JObject fields) \<and>
           distinct (map fst fields) \<and>
           (\<forall>k. map_of fields k =
              map_option JNumber (RBT.lookup (attributeMap (layers s ! i)) k))))"
proof (intro exI conjI allI impI)
  show "serialiseLayerJSON s = JObject [(''vector_layers'', JArray (map layer_entry (layers s)))]"
    by (simp add: serialiseLayerJSON_def)
  show "length (map layer_entry (layers s)) = length (layers s)"
    by simp
next
  fix i
  assume i: "i < length (layers s)"
  let ?l = "layers s ! i"
  have e: "map layer_entry (layers s) ! i = layer_entry ?l"
    using i by simp
  show "map fst (members (map layer_entry (layers s) ! i)) =
      [''id'', ''minzoom'', ''maxzoom'', ''fields'']"
    by (simp add: e layer_entry_def)
  show "member ''id'' (map layer_entry (layers s) ! i) = Some (JString (name ?l))"
    by (simp add: e layer_entry_def member_def)
  show "member ''minzoom'' (map layer_entry (layers s) ! i) = Some (JNumber (minzoom ?l))"
    by (simp add: e layer_entry_def member_def)
  show "member ''maxzoom'' (map layer_entry (layers s) ! i) = Some (JNumber (maxzoom ?l))"
    by (simp add: e layer_entry_def member_def)
  show "member ''fields'' (map layer_entry (layers s) ! i) =
      Some (JObject (members (layer_fields ?l)))"
    by (simp add: e layer_entry_def member_def layer_fields_def)
  show "distinct (map fst (members (layer_fields ?l)))"
    using layer_fields_members [of ?l] by simp
  fix k
  show "map_of (members (layer_fields ?l)) k =
      map_option JNumber (RBT.lookup (attributeMap ?l) k)"
    using layer_fields_members [of ?l] by (simp add: member_def)
qed

lemma example_layers_document:
  "serialiseLayerJSON example_layers =
     JObject [(''vector_layers'', JArray
       [JObject [(''id'', JString ''roads''), (''minzoom'', JNumber 4), (''maxzoom'', JNumber 14),
                 (''fields'', JObject [(''class'', JNumber 0), (''lanes'', JNumber 1)])],
        JObject [(''id'', JString ''buildings''), (''minzoom'', JNumber 13), (''maxzoom'', JNumber 14),
                 (''fields'', JObject [(''height'', JNumber 1), (''listed'', JNumber 2),
                                       (''name'', JNumber 0)])]])]"
  unfolding serialiseLayerJSON_def example_layers_def example_context_def layer_entry_def
    layer_fields_def
  by code_simp

lemma example_layers_fields:
  "length (layers example_layers) = 2"
  "name (layers example_layers ! 0) = ''roads''"
  "name (layers example_layers ! 1) = ''buildings''"
  by (simp_all add: example_layers_def)

lemma example_layers_lookup:
  "RBT.lookup (attributeMap (layers example_layers ! 1)) ''height'' = Some 1"
  "RBT.lookup (attributeMap (layers example_layers ! 1)) ''name'' = Some 0"
  "RBT.lookup (attributeMap (layers example_layers ! 1)) ''listed'' = Some 2"
  "RBT.lookup (attributeMap (layers example_layers ! 1)) ''class'' = None"
  unfolding example_layers_def example_context_def
  by code_simp+

theorem serialiseLayerJSON_document_witness:
  "\<exists>entries.
     serialiseLayerJSON example_layers = JObject [(''vector_layers'', JArray entries)] \<and>
     length entries = 2 \<and>
     member ''id'' (entries ! 0) = Some (JString ''roads'') \<and>
     member ''id'' (entries ! 1) = Some (JString ''buildings'') \<and>
     (\<exists>fields.
        member ''fields'' (entries ! 1) = Some (JObject fields) \<and>
        distinct (map fst fields) \<and>
        map_of fields ''height'' = Some (JNumber 1) \<and>
        map_of fields ''name'' = Some (JNumber 0) \<and>
        map_of fields ''listed'' = Some (JNumber 2) \<and>
        map_of fields ''class'' = None)"
proof -
  from serialiseLayerJSON_document [of example_layers]
  obtain entries where
    doc: "serialiseLayerJSON example_layers = JObject [(''vector_layers'', JArray entries)]"
    and len: "length entries = length (layers example_layers)"
    and each: "\<And>i. i < length (layers example_layers) \<Longrightarrow>
        member ''id'' (entries ! i) = Some (JString (name (layers example_layers ! i))) \<and>
        (\<exists>fields.
           member ''fields'' (entries ! i) = Some (JObject fields) \<and>
           distinct (map fst fields) \<and>
           (\<forall>k. map_of fields k =
              map_option JNumber (RBT.lookup (attributeMap (layers example_layers ! i)) k)))"
    by blast
  have 0: "member ''id'' (entries ! 0) = Some (JString ''roads'')"
    using each [of 0] by (simp add: example_layers_fields)
  have 1: "member ''id'' (entries ! 1) = Some (JString ''buildings'')"
    using each [of 1] by (simp add: example_layers_fields del: One_nat_def)
  from each [of 1] obtain fields where
    f: "member ''fields'' (entries ! 1) = Some (JObject fields)"
    and d: "distinct (map fst fields)"
    and m: "\<And>k. map_of fields k =
        map_option JNumber (RBT.lookup (attributeMap (layers example_layers ! 1)) k)"
    by (auto simp: example_layers_fields simp del: One_nat_def)
  have "map_of fields ''height'' = Some (JNumber 1) \<and>
      map_of fields ''name'' = Some (JNumber 0) \<and>
      map_of fields ''listed'' = Some (JNumber 2) \<and>
      map_of fields ''class'' = None"
    by (simp add: m example_layers_lookup del: One_nat_def)
  with f d have "\<exists>fields.
        member ''fields'' (entries ! 1) = Some (JObject fields) \<and>
        distinct (map fst fields) \<and>
        map_of fields ''height'' = Some (JNumber 1) \<and>
        map_of fields ''name'' = Some (JNumber 0) \<and>
        map_of fields ''listed'' = Some (JNumber 2) \<and>
        map_of fields ''class'' = None"
    by blast
  with doc len 0 1 show ?thesis
    by (auto simp: example_layers_fields simp del: One_nat_def)
qed

end
